theory Spec2Isabelle
  imports Main "HOL-Library.Word"
begin

section \<open>Data model of a wide data part\<close>

type_synonym UInt64 = "64 word"
type_synonym byte = "8 word"

text \<open>
  Exceptions are values.  An exception carries its error code, the format string of the
  message and the arguments of the message, so that a statement can say what an error
  names.  \<open>DIVISION_BY_ZERO\<close> stands for the undefined behaviour of an integer division
  by zero, which no exception of the source describes.
\<close>

datatype ErrorCode =
    NO_FILE_IN_DATA_PART
  | BAD_SIZE_OF_FILE_IN_DATA_PART
  | LOGICAL_ERROR
  | CANNOT_READ_ALL_DATA
  | DIVISION_BY_ZERO
  | OTHER_ERROR nat

datatype FormatArg =
    Str string
  | Num UInt64
  | BackQuote string
  | PathJoin string string

datatype Exception = Exception (error_code: ErrorCode) (format: string) (args: "FormatArg list")

text \<open>A column: \<open>NameAndTypePair\<close> with the queries of \<open>IDataType\<close> that the part uses.\<close>

record IDataType =
  isValueRepresentedByNumber :: bool
  haveSubtypes :: bool
  getSizeOfValueInMemory :: UInt64

record NameAndTypePair =
  column_name :: string
  column_type :: IDataType

text \<open>
  A serialization enumerates an ordered sequence of substream paths and has a kind.
  \<open>enumerateStreams\<close> calls its callback once per path, in order.
\<close>

type_synonym SubstreamPath = "string list"

datatype Kind = DEFAULT | SPARSE

record ISerialization =
  substream_paths :: "SubstreamPath list"
  getKind :: Kind

definition enumerateStreams :: "ISerialization \<Rightarrow> (SubstreamPath \<Rightarrow> 's \<Rightarrow> 's) \<Rightarrow> 's \<Rightarrow> 's" where
  "enumerateStreams serialization callback st = fold callback (substream_paths serialization) st"

text \<open>
  A loop whose body may throw: the first exception ends the loop, and the state reached
  so far is kept beside it.  \<open>enumerateStreamsThrowing\<close> is the enumeration of the
  substreams with such a callback.
\<close>

fun for_each_throwing ::
  "('a \<Rightarrow> 's \<Rightarrow> 's \<times> Exception option) \<Rightarrow> 'a list \<Rightarrow> 's \<Rightarrow> 's \<times> Exception option"
where
  "for_each_throwing body [] st = (st, None)"
| "for_each_throwing body (x # rest) st =
     (case body x st of
        (st', Some e) \<Rightarrow> (st', Some e)
      | (st', None) \<Rightarrow> for_each_throwing body rest st')"

definition enumerateStreamsThrowing ::
  "ISerialization \<Rightarrow> (SubstreamPath \<Rightarrow> 's \<Rightarrow> 's \<times> Exception option) \<Rightarrow> 's \<Rightarrow> 's \<times> Exception option"
where
  "enumerateStreamsThrowing serialization callback st =
     for_each_throwing callback (substream_paths serialization) st"

text \<open>
  The checksum index: \<open>checksums.files\<close>, a map from file name to checksum, kept as an
  association list read with \<open>map_of\<close>; \<open>checksums.empty()\<close> is the empty list.
\<close>

record Checksum =
  file_size :: UInt64
  uncompressed_size :: UInt64

type_synonym ChecksumFiles = "(string \<times> Checksum) list"

definition contains_file :: "ChecksumFiles \<Rightarrow> string \<Rightarrow> bool" where
  "contains_file files file_name = (map_of files file_name \<noteq> None)"

text \<open>\<open>ColumnSize\<close> and its method \<open>add\<close>, which adds field by field in 64-bit arithmetic.\<close>

datatype ColumnSize =
  ColumnSize (marks: UInt64) (data_compressed: UInt64) (data_uncompressed: UInt64)

definition add :: "ColumnSize \<Rightarrow> ColumnSize \<Rightarrow> ColumnSize" where
  "add sz other =
     ColumnSize (marks sz + marks other)
                (data_compressed sz + data_compressed other)
                (data_uncompressed sz + data_uncompressed other)"

instantiation ColumnSize :: comm_monoid_add
begin

definition zero_ColumnSize :: ColumnSize where
  "zero_ColumnSize = ColumnSize 0 0 0"

definition plus_ColumnSize :: "ColumnSize \<Rightarrow> ColumnSize \<Rightarrow> ColumnSize" where
  "plus_ColumnSize a b = add a b"

instance
proof
  fix a b c :: ColumnSize
  show "a + b + c = a + (b + c)"
    by (cases a, cases b, cases c) (simp add: plus_ColumnSize_def add_def)
  show "a + b = b + a"
    by (cases a, cases b) (simp add: plus_ColumnSize_def add_def)
  show "0 + a = a"
    by (cases a) (simp add: plus_ColumnSize_def zero_ColumnSize_def add_def)
qed

end

text \<open>The mark format and the granularity information of a part.\<close>

record MarkType =
  adaptive :: bool
  compressed :: bool

record MergeTreeIndexGranularityInfo =
  mark_type :: MarkType
  fixed_index_granularity :: UInt64

text \<open>
  Modelled from the spec: \<open>MergeTreeIndexGranularity\<close> is declared outside the files at
  hand.  The index granularity table is an ordered sequence of per-mark row counts;
  \<open>appendMark\<close> appends one count, \<open>resizeWithFixedGranularity\<close> fills the table by
  repeating the fixed granularity once per mark, \<open>setInitialized\<close> marks it loaded.
\<close>

record MergeTreeIndexGranularity =
  marks_rows :: "UInt64 list"
  initialized :: bool

definition appendMark :: "UInt64 \<Rightarrow> MergeTreeIndexGranularity \<Rightarrow> MergeTreeIndexGranularity" where
  "appendMark rows_count g = g\<lparr>marks_rows := marks_rows g @ [rows_count]\<rparr>"

definition resizeWithFixedGranularity ::
  "UInt64 \<Rightarrow> UInt64 \<Rightarrow> MergeTreeIndexGranularity \<Rightarrow> MergeTreeIndexGranularity"
where
  "resizeWithFixedGranularity marks_count fixed_granularity g =
     g\<lparr>marks_rows := replicate (unat marks_count) fixed_granularity\<rparr>"

definition setInitialized :: "MergeTreeIndexGranularity \<Rightarrow> MergeTreeIndexGranularity" where
  "setInitialized g = g\<lparr>initialized := True\<rparr>"

text \<open>
  Modelled from the spec: the record size of a mark is 16 bytes if the format is not
  adaptive, else 24 (\<open>getMarkSizeInBytes\<close> is declared outside the files at hand).
\<close>

definition getMarkSizeInBytes :: "MergeTreeIndexGranularityInfo \<Rightarrow> UInt64" where
  "getMarkSizeInBytes info = (if adaptive (mark_type info) then 24 else 16)"

text \<open>
  The storage of a part: its files by path, each a sequence of bytes, and the full path
  of the part.  \<open>exists\<close> and \<open>getFileSize\<close> read it.
\<close>

record IDataPartStorage =
  storage_files :: "string \<rightharpoonup> byte list"
  getFullPath :: string

definition exists_file :: "IDataPartStorage \<Rightarrow> string \<Rightarrow> bool" where
  "exists_file storage path = (storage_files storage path \<noteq> None)"

definition getFileSize :: "IDataPartStorage \<Rightarrow> string \<Rightarrow> UInt64" where
  "getFileSize storage path =
     (case storage_files storage path of None \<Rightarrow> 0 | Some content \<Rightarrow> of_nat (length content))"

text \<open>The part: the members of \<open>MergeTreeDataPartWide\<close> that the functions below read or write.\<close>

record MergeTreeDataPartWide =
  name :: string
  columns :: "NameAndTypePair list"
  serializations :: "string \<Rightarrow> ISerialization"
  checksums :: ChecksumFiles
  rows_count :: UInt64
  index_granularity :: MergeTreeIndexGranularity
  index_granularity_info :: MergeTreeIndexGranularityInfo
  data_part_storage :: IDataPartStorage

definition getSerialization :: "MergeTreeDataPartWide \<Rightarrow> string \<Rightarrow> ISerialization" where
  "getSerialization part column = serializations part column"

text \<open>
  The functions that the part calls and that are defined outside the files at hand are
  parameters: the file name of a substream, the resolution of a stream name against the
  checksum index, the hash of a name, the file extension of a mark format, the
  adjustment of the granularity information to the storage, the decompressing reader
  (the whole decompressed stream, or the exception of a corrupt block) and the checks
  of the base class.
\<close>

record collaborators =
  getFileNameForStream :: "NameAndTypePair \<Rightarrow> SubstreamPath \<Rightarrow> string"
  getFileNameOrHash :: "ChecksumFiles \<Rightarrow> string \<Rightarrow> string"
  sipHash128String :: "string \<Rightarrow> string"
  getFileExtension :: "MarkType \<Rightarrow> string"
  changeGranularityIfRequired ::
    "IDataPartStorage \<Rightarrow> MergeTreeIndexGranularityInfo \<Rightarrow> MergeTreeIndexGranularityInfo"
  decompress :: "byte list \<Rightarrow> Exception + byte list"
  checkConsistencyBase :: "MergeTreeDataPartWide \<Rightarrow> Exception option"

definition DATA_FILE_EXTENSION :: string where
  "DATA_FILE_EXTENSION = ''.bin''"

definition getMarksFileExtension :: "collaborators \<Rightarrow> MergeTreeDataPartWide \<Rightarrow> string" where
  "getMarksFileExtension co part = getFileExtension co (mark_type (index_granularity_info part))"

section \<open>Column sizes\<close>

text \<open>
  \<open>getColumnSizeImpl\<close>: the callback run for each substream of the column.  The state is
  the set \<open>processed_substreams\<close> (absent when the caller passes a null pointer) and the
  size accumulated so far.
\<close>

definition getColumnSizeImpl_callback ::
  "collaborators \<Rightarrow> MergeTreeDataPartWide \<Rightarrow> NameAndTypePair \<Rightarrow> SubstreamPath \<Rightarrow>
     string set option \<times> ColumnSize \<Rightarrow> string set option \<times> ColumnSize"
where
  "getColumnSizeImpl_callback co part column substream_path st =
     (let processed_substreams = fst st;
          sz = snd st;
          full_stream_name = getFileNameForStream co column substream_path;
          stream_name = getFileNameOrHash co (checksums part) full_stream_name
      in if (case processed_substreams of None \<Rightarrow> False | Some s \<Rightarrow> stream_name \<in> s) then st
         else
           let processed' = map_option (insert stream_name) processed_substreams;
               sz1 = (case map_of (checksums part) (stream_name @ ''.bin'') of
                        None \<Rightarrow> sz
                      | Some bin_checksum \<Rightarrow>
                          ColumnSize (marks sz)
                            (data_compressed sz + file_size bin_checksum)
                            (data_uncompressed sz + uncompressed_size bin_checksum));
               sz2 = (case map_of (checksums part) (stream_name @ getMarksFileExtension co part) of
                        None \<Rightarrow> sz1
                      | Some mrk_checksum \<Rightarrow>
                          ColumnSize (marks sz1 + file_size mrk_checksum)
                            (data_compressed sz1) (data_uncompressed sz1))
           in (processed', sz2))"

definition getColumnSizeImpl ::
  "collaborators \<Rightarrow> MergeTreeDataPartWide \<Rightarrow> NameAndTypePair \<Rightarrow> string set option \<Rightarrow>
     string set option \<times> ColumnSize"
where
  "getColumnSizeImpl co part column processed_substreams =
     (if checksums part = [] then (processed_substreams, ColumnSize 0 0 0)
      else enumerateStreams (getSerialization part (column_name column))
             (getColumnSizeImpl_callback co part column)
             (processed_substreams, ColumnSize 0 0 0))"

text \<open>
  The check of \<open>calculateEachColumnSizes\<close> that is compiled unless \<open>NDEBUG\<close> is defined.
\<close>

definition check_rows_in_column ::
  "MergeTreeDataPartWide \<Rightarrow> NameAndTypePair \<Rightarrow> ColumnSize \<Rightarrow> Exception option"
where
  "check_rows_in_column part column sz =
     (if rows_count part \<noteq> 0
         \<and> isValueRepresentedByNumber (column_type column)
         \<and> \<not> haveSubtypes (column_type column)
         \<and> getKind (getSerialization part (column_name column)) = DEFAULT
      then
        if getSizeOfValueInMemory (column_type column) = 0
        then Some (Exception DIVISION_BY_ZERO [] [])
        else
          let rows_in_column = data_uncompressed sz div getSizeOfValueInMemory (column_type column)
          in if rows_in_column \<noteq> rows_count part
             then Some (Exception LOGICAL_ERROR
                    ''Column {} has rows count {} according to size in memory and size of single value, but data part {} has {} rows''
                    [BackQuote (column_name column), Num rows_in_column, Str (name part),
                     Num (rows_count part)])
             else None
      else None)"

text \<open>
  \<open>calculateEachColumnSizes\<close>: the loop over the columns.  \<open>ndebug\<close> tells whether
  \<open>NDEBUG\<close> is defined.  The two output parameters are returned as they are when the
  function ends, with the exception if one was thrown.
\<close>

fun calculateEachColumnSizes_loop ::
  "collaborators \<Rightarrow> bool \<Rightarrow> MergeTreeDataPartWide \<Rightarrow> NameAndTypePair list \<Rightarrow> string set option \<Rightarrow>
     (string \<rightharpoonup> ColumnSize) \<Rightarrow> ColumnSize \<Rightarrow>
     (string \<rightharpoonup> ColumnSize) \<times> ColumnSize \<times> Exception option"
where
  "calculateEachColumnSizes_loop co ndebug part [] processed_substreams each_columns_size total_size =
     (each_columns_size, total_size, None)"
| "calculateEachColumnSizes_loop co ndebug part (column # rest) processed_substreams
       each_columns_size total_size =
     (let r = getColumnSizeImpl co part column processed_substreams;
          sz = snd r;
          each_columns_size' = each_columns_size(column_name column \<mapsto> sz);
          total_size' = add total_size sz
      in case (if ndebug then None else check_rows_in_column part column sz) of
           Some e \<Rightarrow> (each_columns_size', total_size', Some e)
         | None \<Rightarrow>
             calculateEachColumnSizes_loop co ndebug part rest (fst r) each_columns_size' total_size')"

definition calculateEachColumnSizes ::
  "collaborators \<Rightarrow> bool \<Rightarrow> MergeTreeDataPartWide \<Rightarrow> (string \<rightharpoonup> ColumnSize) \<Rightarrow> ColumnSize \<Rightarrow>
     (string \<rightharpoonup> ColumnSize) \<times> ColumnSize \<times> Exception option"
where
  "calculateEachColumnSizes co ndebug part each_columns_size total_size =
     calculateEachColumnSizes_loop co ndebug part (columns part) (Some {}) each_columns_size total_size"

section \<open>Consistency check\<close>

text \<open>
  \<open>checkConsistency\<close>, checksums present and part metadata required: the callback run
  for each substream of a column.
\<close>

definition checkConsistency_checksums_callback ::
  "collaborators \<Rightarrow> MergeTreeDataPartWide \<Rightarrow> string \<Rightarrow> NameAndTypePair \<Rightarrow> SubstreamPath \<Rightarrow>
     unit \<Rightarrow> unit \<times> Exception option"
where
  "checkConsistency_checksums_callback co part marks_file_extension name_type substream_path st =
     (let full_stream_name = getFileNameForStream co name_type substream_path;
          stream_name = getFileNameOrHash co (checksums part) full_stream_name;
          mrk_file_name = stream_name @ marks_file_extension;
          bin_file_name = stream_name @ DATA_FILE_EXTENSION
      in if \<not> contains_file (checksums part) mrk_file_name
         then (st, Some (Exception NO_FILE_IN_DATA_PART
                 ''No {} file checksum for column {} in part {} ''
                 [Str mrk_file_name, Str (column_name name_type),
                  Str (getFullPath (data_part_storage part))]))
         else if \<not> contains_file (checksums part) bin_file_name
         then (st, Some (Exception NO_FILE_IN_DATA_PART
                 ''No {} file checksum for column {} in part {}''
                 [Str bin_file_name, Str (column_name name_type),
                  Str (getFullPath (data_part_storage part))]))
         else (st, None))"

text \<open>
  \<open>checkConsistency\<close>, no checksums: the callback run for each substream of a column.
  The state is \<open>marks_size\<close>, the size of the first mark file found.
\<close>

definition checkConsistency_marks_callback ::
  "collaborators \<Rightarrow> MergeTreeDataPartWide \<Rightarrow> string \<Rightarrow> NameAndTypePair \<Rightarrow> SubstreamPath \<Rightarrow>
     UInt64 option \<Rightarrow> UInt64 option \<times> Exception option"
where
  "checkConsistency_marks_callback co part marks_file_extension name_type substream_path marks_size =
     (let storage = data_part_storage part;
          file_path0 = getFileNameForStream co name_type substream_path @ marks_file_extension;
          file_path = (if \<not> exists_file storage file_path0
                       then sipHash128String co file_path0 @ marks_file_extension
                       else file_path0)
      in if exists_file storage file_path
         then
           let file_size = getFileSize storage file_path
           in if file_size = 0
              then (marks_size, Some (Exception BAD_SIZE_OF_FILE_IN_DATA_PART
                      ''Part {} is broken: {} is empty.''
                      [Str (getFullPath storage), PathJoin (getFullPath storage) file_path]))
              else (case marks_size of
                      None \<Rightarrow> (Some file_size, None)
                    | Some expected \<Rightarrow>
                        if file_size \<noteq> expected
                        then (marks_size, Some (Exception BAD_SIZE_OF_FILE_IN_DATA_PART
                                ''Part {} is broken: marks have different sizes.''
                                [Str (getFullPath storage)]))
                        else (marks_size, None))
         else (marks_size, None))"

definition checkConsistency ::
  "collaborators \<Rightarrow> MergeTreeDataPartWide \<Rightarrow> bool \<Rightarrow> Exception option"
where
  "checkConsistency co part require_part_metadata =
     (case checkConsistencyBase co part of
        Some e \<Rightarrow> Some e
      | None \<Rightarrow>
          let marks_file_extension = getFileExtension co (mark_type (index_granularity_info part))
          in if checksums part \<noteq> []
             then
               if require_part_metadata
               then snd (for_each_throwing
                      (\<lambda>name_type.
                         enumerateStreamsThrowing (getSerialization part (column_name name_type))
                           (checkConsistency_checksums_callback co part marks_file_extension name_type))
                      (columns part) ())
               else None
             else snd (for_each_throwing
                    (\<lambda>name_type.
                       enumerateStreamsThrowing (getSerialization part (column_name name_type))
                         (checkConsistency_marks_callback co part marks_file_extension name_type))
                    (columns part) None))"

section \<open>Column files\<close>

definition hasColumnFiles :: "collaborators \<Rightarrow> MergeTreeDataPartWide \<Rightarrow> NameAndTypePair \<Rightarrow> bool" where
  "hasColumnFiles co part column =
     (let marks_file_extension = getFileExtension co (mark_type (index_granularity_info part));
          check_stream_exists = (\<lambda>stream_name.
             map_of (checksums part) (stream_name @ DATA_FILE_EXTENSION) \<noteq> None
             \<and> map_of (checksums part) (stream_name @ marks_file_extension) \<noteq> None)
      in enumerateStreams (getSerialization part (column_name column))
           (\<lambda>substream_path res.
              let file_name = getFileNameForStream co column substream_path
              in if \<not> check_stream_exists file_name then False else res)
           True)"

definition getFileNameForColumn ::
  "collaborators \<Rightarrow> MergeTreeDataPartWide \<Rightarrow> NameAndTypePair \<Rightarrow> string" where
  "getFileNameForColumn co part column =
     enumerateStreams (getSerialization part (column_name column))
       (\<lambda>substream_path filename.
          if filename = []
          then getFileNameOrHash co (checksums part) (getFileNameForStream co column substream_path)
          else filename)
       []"

section \<open>Loading the index granularity\<close>

text \<open>
  Modelled from the spec: a mark file is a sequence of little-endian records, so
  \<open>readBinary\<close> and \<open>readIntBinary\<close> (defined outside the files at hand) read eight
  bytes, least significant first.  With fewer than eight bytes left the read throws.
\<close>

fun from_little_endian :: "byte list \<Rightarrow> UInt64" where
  "from_little_endian [] = 0"
| "from_little_endian (b # bs) = or (ucast b) (push_bit 8 (from_little_endian bs))"

definition readBinary :: "byte list \<Rightarrow> Exception + UInt64 \<times> byte list" where
  "readBinary buf =
     (if length buf < 8
      then Inl (Exception CANNOT_READ_ALL_DATA
             ''Cannot read all data. Bytes read: {}. Bytes expected: {}.''
             [Num (of_nat (length buf)), Num 8])
      else Inr (from_little_endian (take 8 buf), drop 8 buf))"

definition readIntBinary :: "byte list \<Rightarrow> Exception + UInt64 \<times> byte list" where
  "readIntBinary buf = readBinary buf"

text \<open>
  The loop of \<open>loadIndexGranularityImpl\<close> over the reader, whose remaining bytes are
  \<open>buf\<close>; \<open>eof\<close> is the empty buffer.  The result is \<open>marks_count\<close>, the table and the
  exception of a failed read.
\<close>

function read_marks_loop ::
  "bool \<Rightarrow> byte list \<Rightarrow> UInt64 \<Rightarrow> MergeTreeIndexGranularity \<Rightarrow>
     UInt64 \<times> MergeTreeIndexGranularity \<times> Exception option"
where
  "read_marks_loop is_adaptive buf marks_count index_granularity' =
     (if buf = [] then (marks_count, index_granularity', None)
      else
        case readBinary buf of
          Inl e \<Rightarrow> (marks_count, index_granularity', Some e)
        | Inr (offset_in_compressed_file, buf1) \<Rightarrow>
            (case readBinary buf1 of
               Inl e \<Rightarrow> (marks_count, index_granularity', Some e)
             | Inr (offset_in_decompressed_block, buf2) \<Rightarrow>
                 if is_adaptive
                 then
                   (case readIntBinary buf2 of
                      Inl e \<Rightarrow> (marks_count + 1, index_granularity', Some e)
                    | Inr (granularity, buf3) \<Rightarrow>
                        read_marks_loop is_adaptive buf3 (marks_count + 1)
                          (appendMark granularity index_granularity'))
                 else read_marks_loop is_adaptive buf2 (marks_count + 1) index_granularity'))"
  by pat_completeness auto
termination
  by (relation "measure (\<lambda>(is_adaptive, buf, marks_count, g). length buf)")
     (auto simp: readBinary_def readIntBinary_def split: if_splits)

declare read_marks_loop.simps [simp del]

definition getMarksFilePath ::
  "collaborators \<Rightarrow> MergeTreeIndexGranularityInfo \<Rightarrow> string \<Rightarrow> string" where
  "getMarksFilePath co info path_prefix = path_prefix @ getFileExtension co (mark_type info)"

definition loadIndexGranularityImpl ::
  "collaborators \<Rightarrow> MergeTreeIndexGranularity \<Rightarrow> MergeTreeIndexGranularityInfo \<Rightarrow>
     IDataPartStorage \<Rightarrow> string \<Rightarrow>
     MergeTreeIndexGranularity \<times> MergeTreeIndexGranularityInfo \<times> Exception option"
where
  "loadIndexGranularityImpl co index_granularity' index_granularity_info' data_part_storage'
       any_column_file_name =
     (let info = changeGranularityIfRequired co data_part_storage' index_granularity_info';
          marks_file_path = getMarksFilePath co info any_column_file_name
      in case storage_files data_part_storage' marks_file_path of
           None \<Rightarrow>
             (index_granularity', info,
              Some (Exception NO_FILE_IN_DATA_PART ''Marks file '{}' doesn't exist''
                      [PathJoin (getFullPath data_part_storage') marks_file_path]))
         | Some marks_file \<Rightarrow>
             let marks_file_size = getFileSize data_part_storage' marks_file_path
             in if \<not> adaptive (mark_type info) \<and> \<not> compressed (mark_type info)
                then
                  let marks_count = marks_file_size div getMarkSizeInBytes info
                  in (setInitialized
                        (resizeWithFixedGranularity marks_count (fixed_index_granularity info)
                           index_granularity'),
                      info, None)
                else
                  (case (if \<not> compressed (mark_type info) then Inr marks_file
                         else decompress co marks_file) of
                     Inl e \<Rightarrow> (index_granularity', info, Some e)
                   | Inr marks_reader \<Rightarrow>
                       (case read_marks_loop (adaptive (mark_type info)) marks_reader 0
                               index_granularity' of
                          (marks_count, g, Some e) \<Rightarrow> (g, info, Some e)
                        | (marks_count, g, None) \<Rightarrow>
                            (setInitialized
                               (if \<not> adaptive (mark_type info)
                                then resizeWithFixedGranularity marks_count
                                       (fixed_index_granularity info) g
                                else g),
                             info, None))))"

definition loadIndexGranularity ::
  "collaborators \<Rightarrow> MergeTreeDataPartWide \<Rightarrow> MergeTreeDataPartWide \<times> Exception option" where
  "loadIndexGranularity co part =
     (case columns part of
        [] \<Rightarrow> (part, Some (Exception NO_FILE_IN_DATA_PART ''No columns in part {}'' [Str (name part)]))
      | front # _ \<Rightarrow>
          (case loadIndexGranularityImpl co (index_granularity part) (index_granularity_info part)
                  (data_part_storage part) (getFileNameForColumn co part front) of
             (g, info, r) \<Rightarrow>
               (part\<lparr>index_granularity := g, index_granularity_info := info\<rparr>, r)))"


section \<open>Notions used in the statements\<close>

text \<open>
  The stream names of a column: the file name of each enumerated substream, resolved
  against the checksum index, in the order of the enumeration.
\<close>

definition stream_names :: "collaborators \<Rightarrow> MergeTreeDataPartWide \<Rightarrow> NameAndTypePair \<Rightarrow> string list" where
  "stream_names co part column =
     map (\<lambda>substream_path. getFileNameOrHash co (checksums part) (getFileNameForStream co column substream_path))
       (substream_paths (getSerialization part (column_name column)))"

text \<open>The bytes that the checksum index records for the two files of a stream.\<close>

definition stream_size :: "collaborators \<Rightarrow> MergeTreeDataPartWide \<Rightarrow> string \<Rightarrow> ColumnSize" where
  "stream_size co part stream_name =
     ColumnSize
       (case map_of (checksums part) (stream_name @ getMarksFileExtension co part) of
          None \<Rightarrow> 0 | Some mrk_checksum \<Rightarrow> file_size mrk_checksum)
       (case map_of (checksums part) (stream_name @ ''.bin'') of
          None \<Rightarrow> 0 | Some bin_checksum \<Rightarrow> file_size bin_checksum)
       (case map_of (checksums part) (stream_name @ ''.bin'') of
          None \<Rightarrow> 0 | Some bin_checksum \<Rightarrow> uncompressed_size bin_checksum)"

text \<open>All stream names of a list of columns.\<close>

definition streams_of_columns ::
  "collaborators \<Rightarrow> MergeTreeDataPartWide \<Rightarrow> NameAndTypePair list \<Rightarrow> string set" where
  "streams_of_columns co part cols = (\<Union>column \<in> set cols. set (stream_names co part column))"

text \<open>The size that the map of column sizes reports for a column (zero when it has none).\<close>

definition reported_size :: "(string \<rightharpoonup> ColumnSize) \<Rightarrow> NameAndTypePair \<Rightarrow> ColumnSize" where
  "reported_size each_columns_size column =
     (case each_columns_size (column_name column) of None \<Rightarrow> 0 | Some sz \<Rightarrow> sz)"

text \<open>
  The set \<open>processed_substreams\<close> after the loop of \<open>calculateEachColumnSizes\<close> has
  handled the given columns, and the size that the loop computes for the \<open>i\<close>-th column
  of the part.
\<close>

definition processed_after ::
  "collaborators \<Rightarrow> MergeTreeDataPartWide \<Rightarrow> NameAndTypePair list \<Rightarrow> string set option \<Rightarrow> string set option"
where
  "processed_after co part cols processed_substreams =
     fold (\<lambda>column ps. fst (getColumnSizeImpl co part column ps)) cols processed_substreams"

definition pass_column_size :: "collaborators \<Rightarrow> MergeTreeDataPartWide \<Rightarrow> nat \<Rightarrow> ColumnSize" where
  "pass_column_size co part i =
     snd (getColumnSizeImpl co part (columns part ! i)
            (processed_after co part (take i (columns part)) (Some {})))"

text \<open>A stream has both entries: its data file and its mark file are in the checksum index.\<close>

definition has_both_entries :: "collaborators \<Rightarrow> MergeTreeDataPartWide \<Rightarrow> string \<Rightarrow> bool" where
  "has_both_entries co part stream_name =
     (contains_file (checksums part) (stream_name @ DATA_FILE_EXTENSION)
      \<and> contains_file (checksums part) (stream_name @ getMarksFileExtension co part))"

text \<open>
  Modelled from the spec: the file name resolver for a part without a checksum index
  (the resolver is defined outside the files at hand) probes the storage for the
  literal name of the stream first and falls back to the hashed name of the stream if
  the literal one is absent.  The mark file of a stream is the resolved name with the
  extension of the mark format; a stream with neither file has no mark file.
\<close>

definition resolved_mark_file ::
  "collaborators \<Rightarrow> MergeTreeDataPartWide \<Rightarrow> NameAndTypePair \<Rightarrow> SubstreamPath \<Rightarrow> string option"
where
  "resolved_mark_file co part column substream_path =
     (let stream_name = getFileNameForStream co column substream_path;
          extension = getMarksFileExtension co part
      in if exists_file (data_part_storage part) (stream_name @ extension)
         then Some (stream_name @ extension)
         else if exists_file (data_part_storage part) (sipHash128String co stream_name @ extension)
         then Some (sipHash128String co stream_name @ extension)
         else None)"

text \<open>
  The row count derived for the \<open>i\<close>-th column of the part, the uncompressed size that
  the pass computes for the column divided by the size of one value; and the mismatch
  that the check of \<open>calculateEachColumnSizes\<close> looks for: the column is represented by
  a number, has no subtypes and has the default serialization kind, and its derived row
  count differs from the row count of the part.
\<close>

definition derived_rows_count :: "collaborators \<Rightarrow> MergeTreeDataPartWide \<Rightarrow> nat \<Rightarrow> UInt64" where
  "derived_rows_count co part i =
     data_uncompressed (pass_column_size co part i)
       div getSizeOfValueInMemory (column_type (columns part ! i))"

definition row_count_mismatch :: "collaborators \<Rightarrow> MergeTreeDataPartWide \<Rightarrow> nat \<Rightarrow> bool" where
  "row_count_mismatch co part i \<longleftrightarrow>
     isValueRepresentedByNumber (column_type (columns part ! i))
     \<and> \<not> haveSubtypes (column_type (columns part ! i))
     \<and> getKind (getSerialization part (column_name (columns part ! i))) = DEFAULT
     \<and> derived_rows_count co part i \<noteq> rows_count part"

text \<open>
  Modelled from the spec: the on-disk format of a mark file, a sequence of fixed-size
  little-endian records; each record is the 8-byte offset in the compressed stream, the
  8-byte offset in the decompressed block and, only if the format is adaptive, the
  8-byte row count of the mark.  (The writer of mark files is outside the files at hand.)
\<close>

record MarkRecord =
  offset_in_compressed_file :: UInt64
  offset_in_decompressed_block :: UInt64
  granularity :: UInt64

fun to_little_endian :: "nat \<Rightarrow> UInt64 \<Rightarrow> byte list" where
  "to_little_endian 0 w = []"
| "to_little_endian (Suc n) w = ucast w # to_little_endian n (drop_bit 8 w)"

definition mark_record_bytes :: "bool \<Rightarrow> MarkRecord \<Rightarrow> byte list" where
  "mark_record_bytes is_adaptive r =
     to_little_endian 8 (offset_in_compressed_file r)
     @ to_little_endian 8 (offset_in_decompressed_block r)
     @ (if is_adaptive then to_little_endian 8 (granularity r) else [])"

definition mark_file_bytes :: "bool \<Rightarrow> MarkRecord list \<Rightarrow> byte list" where
  "mark_file_bytes is_adaptive records = concat (map (mark_record_bytes is_adaptive) records)"


section \<open>Example parts\<close>

text \<open>
  Collaborators for the examples: the file name of a substream is the concatenation of
  its path, a stream name is replaced by its hash when only the hashed data file is in
  the checksum index, the granularity information is left as it is, the decompressing
  reader returns the bytes unchanged and the base checks pass.
\<close>

definition example_hash :: "string \<Rightarrow> string" where
  "example_hash s = ''h_'' @ take 4 s"

definition example_collaborators :: collaborators where
  "example_collaborators =
     \<lparr>getFileNameForStream = (\<lambda>column substream_path. concat substream_path),
      getFileNameOrHash = (\<lambda>files stream_name.
         if contains_file files (stream_name @ ''.bin'') then stream_name
         else if contains_file files (example_hash stream_name @ ''.bin'') then example_hash stream_name
         else stream_name),
      sipHash128String = example_hash,
      getFileExtension = (\<lambda>t. (if compressed t then ''.cmrk'' else ''.mrk'')
                                @ (if adaptive t then ''2'' else [])),
      changeGranularityIfRequired = (\<lambda>storage info. info),
      decompress = (\<lambda>bytes. Inr bytes),
      checkConsistencyBase = (\<lambda>part. None)\<rparr>"

definition empty_granularity :: MergeTreeIndexGranularity where
  "empty_granularity = \<lparr>marks_rows = [], initialized = False\<rparr>"

definition info_fixed :: MergeTreeIndexGranularityInfo where
  "info_fixed = \<lparr>mark_type = \<lparr>adaptive = False, compressed = False\<rparr>,
                 fixed_index_granularity = 8192\<rparr>"

definition info_adaptive :: MergeTreeIndexGranularityInfo where
  "info_adaptive = \<lparr>mark_type = \<lparr>adaptive = True, compressed = False\<rparr>,
                    fixed_index_granularity = 8192\<rparr>"

text \<open>A mark file of 48 bytes in the fixed format: three marks of 16 bytes.\<close>

definition storage_fixed :: IDataPartStorage where
  "storage_fixed = \<lparr>storage_files = [''x.mrk'' \<mapsto> replicate 48 0], getFullPath = ''/part''\<rparr>"

text \<open>An adaptive mark file with three marks of 100, 250 and 17 rows.\<close>

definition records_adaptive :: "MarkRecord list" where
  "records_adaptive =
     [\<lparr>offset_in_compressed_file = 0, offset_in_decompressed_block = 0, granularity = 100\<rparr>,
      \<lparr>offset_in_compressed_file = 0, offset_in_decompressed_block = 800, granularity = 250\<rparr>,
      \<lparr>offset_in_compressed_file = 0, offset_in_decompressed_block = 2800, granularity = 17\<rparr>]"

definition storage_adaptive :: IDataPartStorage where
  "storage_adaptive =
     \<lparr>storage_files = [''x.mrk2'' \<mapsto> mark_file_bytes True records_adaptive],
      getFullPath = ''/part''\<rparr>"

definition empty_storage :: IDataPartStorage where
  "empty_storage = \<lparr>storage_files = Map.empty, getFullPath = ''/part''\<rparr>"

definition array_type :: IDataType where
  "array_type =
     \<lparr>isValueRepresentedByNumber = False, haveSubtypes = True, getSizeOfValueInMemory = 0\<rparr>"

definition uint64_type :: IDataType where
  "uint64_type =
     \<lparr>isValueRepresentedByNumber = True, haveSubtypes = False, getSizeOfValueInMemory = 8\<rparr>"

definition column_a :: NameAndTypePair where
  "column_a = \<lparr>column_name = ''n.a'', column_type = array_type\<rparr>"

definition column_b :: NameAndTypePair where
  "column_b = \<lparr>column_name = ''n.b'', column_type = array_type\<rparr>"

definition column_x :: NameAndTypePair where
  "column_x = \<lparr>column_name = ''x'', column_type = uint64_type\<rparr>"

definition column_long :: NameAndTypePair where
  "column_long = \<lparr>column_name = ''long_column_name'', column_type = uint64_type\<rparr>"

text \<open>
  The two array columns of a nested structure share the stream of their sizes; every
  other column has one stream, named as the column.
\<close>

definition example_serializations :: "string \<Rightarrow> ISerialization" where
  "example_serializations column =
     (if column = ''n.a'' then \<lparr>substream_paths = [[''n'', ''.size0''], [''n.a'']], getKind = DEFAULT\<rparr>
      else if column = ''n.b'' then \<lparr>substream_paths = [[''n'', ''.size0''], [''n.b'']], getKind = DEFAULT\<rparr>
      else \<lparr>substream_paths = [[column]], getKind = DEFAULT\<rparr>)"

definition part_nested :: MergeTreeDataPartWide where
  "part_nested =
     \<lparr>name = ''all_1_1_0'',
      columns = [column_a, column_b],
      serializations = example_serializations,
      checksums =
        [(''n.size0.bin'', \<lparr>file_size = 10, uncompressed_size = 40\<rparr>),
         (''n.size0.mrk2'', \<lparr>file_size = 24, uncompressed_size = 24\<rparr>),
         (''n.a.bin'', \<lparr>file_size = 100, uncompressed_size = 400\<rparr>),
         (''n.a.mrk2'', \<lparr>file_size = 24, uncompressed_size = 24\<rparr>),
         (''n.b.bin'', \<lparr>file_size = 200, uncompressed_size = 800\<rparr>),
         (''n.b.mrk2'', \<lparr>file_size = 24, uncompressed_size = 24\<rparr>)],
      rows_count = 5,
      index_granularity = empty_granularity,
      index_granularity_info = info_adaptive,
      data_part_storage = empty_storage\<rparr>"

text \<open>The same part without the checksum of the mark file of \<open>n.b\<close>.\<close>

definition part_missing_mark :: MergeTreeDataPartWide where
  "part_missing_mark =
     part_nested\<lparr>checksums :=
        [(''n.size0.bin'', \<lparr>file_size = 10, uncompressed_size = 40\<rparr>),
         (''n.size0.mrk2'', \<lparr>file_size = 24, uncompressed_size = 24\<rparr>),
         (''n.a.bin'', \<lparr>file_size = 100, uncompressed_size = 400\<rparr>),
         (''n.a.mrk2'', \<lparr>file_size = 24, uncompressed_size = 24\<rparr>),
         (''n.b.bin'', \<lparr>file_size = 200, uncompressed_size = 800\<rparr>)]\<rparr>"

text \<open>
  A part without checksums whose storage has two mark files, of 48 and of 32 bytes; the
  mark file of \<open>n.b\<close> is absent.
\<close>

definition part_no_checksums :: MergeTreeDataPartWide where
  "part_no_checksums =
     part_nested\<lparr>checksums := [],
       data_part_storage :=
         \<lparr>storage_files = [''n.size0.mrk2'' \<mapsto> replicate 48 0, ''n.a.mrk2'' \<mapsto> replicate 32 0],
          getFullPath = ''/part''\<rparr>\<rparr>"

text \<open>
  Two parts without checksums whose mark file of the stream \<open>n.a\<close> is stored under the
  hashed name of the stream: one where it has 32 bytes beside a mark file of 48 bytes,
  one where it is empty.
\<close>

definition part_hashed_marks :: MergeTreeDataPartWide where
  "part_hashed_marks =
     part_nested\<lparr>checksums := [],
       data_part_storage :=
         \<lparr>storage_files = [''n.size0.mrk2'' \<mapsto> replicate 48 0, ''h_n.a.mrk2'' \<mapsto> replicate 32 0],
          getFullPath = ''/part''\<rparr>\<rparr>"

definition part_hashed_mark_empty :: MergeTreeDataPartWide where
  "part_hashed_mark_empty =
     part_nested\<lparr>checksums := [],
       data_part_storage :=
         \<lparr>storage_files = [''n.size0.mrk2'' \<mapsto> replicate 48 0, ''h_n.a.mrk2'' \<mapsto> []],
          getFullPath = ''/part''\<rparr>\<rparr>"

text \<open>
  A part of 1000 rows with one 8-byte numeric column whose data file has 7992
  uncompressed bytes, that is 999 values; and the same part with no rows.
\<close>

definition part_numeric :: MergeTreeDataPartWide where
  "part_numeric =
     \<lparr>name = ''all_2_2_0'',
      columns = [column_x],
      serializations = example_serializations,
      checksums =
        [(''x.bin'', \<lparr>file_size = 4000, uncompressed_size = 7992\<rparr>),
         (''x.mrk2'', \<lparr>file_size = 72, uncompressed_size = 72\<rparr>)],
      rows_count = 1000,
      index_granularity = empty_granularity,
      index_granularity_info = info_adaptive,
      data_part_storage = empty_storage\<rparr>"

definition part_numeric_empty :: MergeTreeDataPartWide where
  "part_numeric_empty = part_numeric\<lparr>rows_count := 0\<rparr>"

text \<open>
  A part whose only column has its two files registered under the hash of the stream
  name.
\<close>

definition part_hashed :: MergeTreeDataPartWide where
  "part_hashed =
     \<lparr>name = ''all_3_3_0'',
      columns = [column_long],
      serializations = example_serializations,
      checksums =
        [(''h_long.bin'', \<lparr>file_size = 4000, uncompressed_size = 8000\<rparr>),
         (''h_long.mrk2'', \<lparr>file_size = 72, uncompressed_size = 72\<rparr>)],
      rows_count = 1000,
      index_granularity = empty_granularity,
      index_granularity_info = info_adaptive,
      data_part_storage = empty_storage\<rparr>"


section \<open>Column sizes: the loop of one column\<close>

lemma ColumnSize_plus:
  "ColumnSize a b c + ColumnSize a' b' c' = ColumnSize (a + a') (b + b') (c + c')"
  by (simp add: plus_ColumnSize_def add_def)

lemma add_eq_plus: "add a b = a + b"
  by (simp add: plus_ColumnSize_def)

lemma marks_plus: "marks (a + b) = marks a + marks b"
  by (simp add: plus_ColumnSize_def add_def)

lemma data_compressed_plus: "data_compressed (a + b) = data_compressed a + data_compressed b"
  by (simp add: plus_ColumnSize_def add_def)

lemma data_uncompressed_plus:
  "data_uncompressed (a + b) = data_uncompressed a + data_uncompressed b"
  by (simp add: plus_ColumnSize_def add_def)

lemma marks_sum_list: "marks (sum_list xs) = sum_list (map marks xs)"
  by (induction xs) (simp_all add: marks_plus zero_ColumnSize_def)

lemma data_compressed_sum_list: "data_compressed (sum_list xs) = sum_list (map data_compressed xs)"
  by (induction xs) (simp_all add: data_compressed_plus zero_ColumnSize_def)

lemma data_uncompressed_sum_list:
  "data_uncompressed (sum_list xs) = sum_list (map data_uncompressed xs)"
  by (induction xs) (simp_all add: data_uncompressed_plus zero_ColumnSize_def)

lemma callback_eq:
  "getColumnSizeImpl_callback co part column substream_path (ps, sz) =
     (let stream_name = getFileNameOrHash co (checksums part) (getFileNameForStream co column substream_path)
      in if (case ps of None \<Rightarrow> False | Some s \<Rightarrow> stream_name \<in> s) then (ps, sz)
         else (map_option (insert stream_name) ps, sz + stream_size co part stream_name))"
  by (cases sz) (simp add: getColumnSizeImpl_callback_def Let_def stream_size_def ColumnSize_plus
      split: option.splits)

lemma fold_callback_Some:
  "fold (getColumnSizeImpl_callback co part column) paths (Some P, sz) =
     (Some (P \<union> set (map (\<lambda>sp. getFileNameOrHash co (checksums part) (getFileNameForStream co column sp)) paths)),
      sz + (\<Sum>s \<in> set (map (\<lambda>sp. getFileNameOrHash co (checksums part) (getFileNameForStream co column sp)) paths) - P.
              stream_size co part s))"
proof (induction paths arbitrary: P sz)
  case Nil
  then show ?case by simp
next
  case (Cons sp paths)
  let ?r = "\<lambda>sp. getFileNameOrHash co (checksums part) (getFileNameForStream co column sp)"
  show ?case
  proof (cases "?r sp \<in> P")
    case True
    then have "insert (?r sp) (set (map ?r paths)) - P = set (map ?r paths) - P" by auto
    with True show ?thesis
      using Cons.IH [of P sz] by (simp add: callback_eq Let_def insert_absorb)
  next
    case False
    have eq: "insert (?r sp) (set (map ?r paths)) - P
                = insert (?r sp) (set (map ?r paths) - insert (?r sp) P)"
      using False by auto
    have notin: "?r sp \<notin> set (map ?r paths) - insert (?r sp) P" by simp
    have fin: "finite (set (map ?r paths) - insert (?r sp) P)" by simp
    show ?thesis
      using False Cons.IH [of "insert (?r sp) P" "sz + stream_size co part (?r sp)"]
      by (simp add: callback_eq Let_def eq sum.insert [OF fin notin] add.assoc del: set_map)
  qed
qed

lemma fold_callback_None:
  "fold (getColumnSizeImpl_callback co part column) paths (None, sz) =
     (None, sz + sum_list (map (\<lambda>sp. stream_size co part (getFileNameOrHash co (checksums part) (getFileNameForStream co column sp))) paths))"
  by (induction paths arbitrary: sz) (simp_all add: callback_eq Let_def add.assoc)

lemma stream_size_no_checksums: "checksums part = [] \<Longrightarrow> stream_size co part s = 0"
  by (simp add: stream_size_def zero_ColumnSize_def)

lemma getColumnSizeImpl_Some:
  "snd (getColumnSizeImpl co part column (Some P)) =
     (\<Sum>s \<in> set (stream_names co part column) - P. stream_size co part s)"
  by (simp add: getColumnSizeImpl_def enumerateStreams_def fold_callback_Some stream_names_def
      stream_size_no_checksums zero_ColumnSize_def [symmetric])

lemma getColumnSizeImpl_Some_fst:
  "fst (getColumnSizeImpl co part column (Some P)) =
     Some (if checksums part = [] then P else P \<union> set (stream_names co part column))"
  by (simp add: getColumnSizeImpl_def enumerateStreams_def fold_callback_Some stream_names_def)

lemma getColumnSizeImpl_None:
  "getColumnSizeImpl co part column None =
     (None, sum_list (map (stream_size co part) (stream_names co part column)))"
  by (simp add: getColumnSizeImpl_def enumerateStreams_def fold_callback_None stream_names_def
      stream_size_no_checksums zero_ColumnSize_def [symmetric] comp_def)

section \<open>Column sizes: the loop over the columns\<close>

lemma loop_frame:
  "calculateEachColumnSizes_loop co ndebug part cols ps m t = (m', t', r) \<Longrightarrow>
   n \<notin> column_name ` set cols \<Longrightarrow> m' n = m n"
proof (induction cols arbitrary: ps m t)
  case Nil
  then show ?case by simp
next
  case (Cons c cols)
  then show ?case
    by (auto simp: Let_def split: option.splits if_splits)
qed

lemma loop_no_rows:
  "rows_count part = 0 \<Longrightarrow>
   snd (snd (calculateEachColumnSizes_loop co ndebug part cols ps m t)) = None"
proof (induction cols arbitrary: ps m t)
  case Nil
  then show ?case by simp
next
  case (Cons c cols)
  have "check_rows_in_column part c (snd (getColumnSizeImpl co part c ps)) = None"
    using Cons.prems by (simp add: check_rows_in_column_def)
  with Cons.IH [OF Cons.prems] show ?case
    by (cases ndebug) (simp_all add: Let_def)
qed

lemma loop_ndebug:
  "snd (snd (calculateEachColumnSizes_loop co True part cols ps m t)) = None"
  by (induction cols arbitrary: ps m t) (simp_all add: Let_def)

lemma loop_sum:
  "calculateEachColumnSizes_loop co ndebug part cols ps m t = (m', t', None) \<Longrightarrow>
   distinct (map column_name cols) \<Longrightarrow>
   t' = t + sum_list (map (reported_size m') cols)"
proof (induction cols arbitrary: ps m t)
  case Nil
  then show ?case by simp
next
  case (Cons c cols)
  let ?r = "getColumnSizeImpl co part c ps"
  let ?m1 = "m(column_name c \<mapsto> snd ?r)"
  from Cons.prems(1)
  have rest: "calculateEachColumnSizes_loop co ndebug part cols (fst ?r) ?m1 (t + snd ?r) = (m', t', None)"
    by (simp add: Let_def add_eq_plus split: option.splits)
  from Cons.prems(2) have d: "distinct (map column_name cols)"
    and n: "column_name c \<notin> column_name ` set cols" by auto
  have "m' (column_name c) = ?m1 (column_name c)"
    using loop_frame [OF rest n] .
  then have rep: "reported_size m' c = snd ?r"
    by (simp add: reported_size_def)
  from Cons.IH [OF rest d] rep show ?case
    by (simp add: add.assoc)
qed

lemma processed_after_Some:
  "\<exists>Q. processed_after co part cols (Some P) = Some Q
     \<and> (checksums part \<noteq> [] \<longrightarrow> Q = P \<union> streams_of_columns co part cols)"
proof (induction cols arbitrary: P)
  case Nil
  then show ?case by (simp add: processed_after_def streams_of_columns_def)
next
  case (Cons c cols)
  have step: "processed_after co part (c # cols) (Some P) =
      processed_after co part cols
        (Some (if checksums part = [] then P else P \<union> set (stream_names co part c)))"
    by (simp add: processed_after_def getColumnSizeImpl_Some_fst)
  from Cons.IH [of "if checksums part = [] then P else P \<union> set (stream_names co part c)"]
  show ?case
    unfolding step by (auto simp: streams_of_columns_def)
qed

lemma column_size_in_pass:
  "snd (getColumnSizeImpl co part column (processed_after co part cols (Some {}))) =
     (\<Sum>s \<in> set (stream_names co part column) - streams_of_columns co part cols.
        stream_size co part s)"
proof -
  obtain Q where Q: "processed_after co part cols (Some {}) = Some Q"
    and Q': "checksums part \<noteq> [] \<longrightarrow> Q = {} \<union> streams_of_columns co part cols"
    using processed_after_Some [of co part cols "{}"] by blast
  show ?thesis
  proof (cases "checksums part = []")
    case True
    then show ?thesis
      by (simp add: Q getColumnSizeImpl_Some stream_size_no_checksums)
  next
    case False
    with Q' show ?thesis by (simp add: Q getColumnSizeImpl_Some)
  qed
qed

lemma loop_each:
  "calculateEachColumnSizes_loop co ndebug part cols ps m t = (m', t', None) \<Longrightarrow>
   distinct (map column_name cols) \<Longrightarrow> i < length cols \<Longrightarrow>
   m' (column_name (cols ! i)) =
     Some (snd (getColumnSizeImpl co part (cols ! i) (processed_after co part (take i cols) ps)))"
proof (induction cols arbitrary: ps m t i)
  case Nil
  then show ?case by simp
next
  case (Cons c cols)
  let ?r = "getColumnSizeImpl co part c ps"
  let ?m1 = "m(column_name c \<mapsto> snd ?r)"
  from Cons.prems(1)
  have rest: "calculateEachColumnSizes_loop co ndebug part cols (fst ?r) ?m1 (t + snd ?r) = (m', t', None)"
    by (simp add: Let_def add_eq_plus split: option.splits)
  from Cons.prems(2) have d: "distinct (map column_name cols)"
    and n: "column_name c \<notin> column_name ` set cols" by auto
  show ?case
  proof (cases i)
    case 0
    have "m' (column_name c) = ?m1 (column_name c)"
      using loop_frame [OF rest n] .
    with 0 show ?thesis by (simp add: processed_after_def)
  next
    case (Suc j)
    with Cons.prems(3) have j: "j < length cols" by simp
    from Cons.IH [OF rest d j] Suc show ?thesis
      by (simp add: processed_after_def)
  qed
qed

lemma loop_total:
  "calculateEachColumnSizes_loop co ndebug part cols (Some P) m t = (m', t', None) \<Longrightarrow>
   t' = t + (\<Sum>s \<in> streams_of_columns co part cols - P. stream_size co part s)"
proof (induction cols arbitrary: P m t)
  case Nil
  then show ?case by (simp add: streams_of_columns_def)
next
  case (Cons c cols)
  let ?r = "getColumnSizeImpl co part c (Some P)"
  let ?S = "set (stream_names co part c)"
  let ?P1 = "if checksums part = [] then P else P \<union> ?S"
  let ?m1 = "m(column_name c \<mapsto> snd ?r)"
  from Cons.prems(1)
  have rest: "calculateEachColumnSizes_loop co ndebug part cols (Some ?P1) ?m1 (t + snd ?r) = (m', t', None)"
    by (cases "checksums part = []")
      (simp_all add: Let_def add_eq_plus getColumnSizeImpl_Some_fst split: option.splits)
  have t': "t' = t + snd ?r + (\<Sum>s \<in> streams_of_columns co part cols - ?P1. stream_size co part s)"
    using Cons.IH [OF rest] .
  show ?case
  proof (cases "checksums part = []")
    case True
    then show ?thesis
      unfolding t' by (simp add: getColumnSizeImpl_Some stream_size_no_checksums)
  next
    case False
    have fin: "finite (streams_of_columns co part cols)"
      by (simp add: streams_of_columns_def)
    have split: "streams_of_columns co part (c # cols) - P =
        (?S - P) \<union> (streams_of_columns co part cols - (P \<union> ?S))"
      by (auto simp: streams_of_columns_def)
    have disj: "(?S - P) \<inter> (streams_of_columns co part cols - (P \<union> ?S)) = {}" by auto
    have "sum (stream_size co part) (streams_of_columns co part (c # cols) - P) =
        sum (stream_size co part) (?S - P)
        + sum (stream_size co part) (streams_of_columns co part cols - (P \<union> ?S))"
      unfolding split using fin by (intro sum.union_disjoint disj) auto
    with False show ?thesis
      unfolding t' by (simp add: getColumnSizeImpl_Some add.assoc)
  qed
qed

lemma loop_first_error:
  "j < length cols \<Longrightarrow>
   \<forall>k < j. check_rows_in_column part (cols ! k)
     (snd (getColumnSizeImpl co part (cols ! k) (processed_after co part (take k cols) ps))) = None \<Longrightarrow>
   check_rows_in_column part (cols ! j)
     (snd (getColumnSizeImpl co part (cols ! j) (processed_after co part (take j cols) ps))) = Some e \<Longrightarrow>
   snd (snd (calculateEachColumnSizes_loop co False part cols ps m t)) = Some e"
proof (induction cols arbitrary: ps m t j)
  case Nil
  then show ?case by simp
next
  case (Cons c cols)
  show ?case
  proof (cases j)
    case 0
    with Cons.prems(3) show ?thesis
      by (simp add: Let_def processed_after_def)
  next
    case (Suc j')
    with Cons.prems(1) have j': "j' < length cols" by simp
    from Cons.prems(2) Suc have "check_rows_in_column part ((c # cols) ! 0)
        (snd (getColumnSizeImpl co part ((c # cols) ! 0)
           (processed_after co part (take 0 (c # cols)) ps))) = None"
      by blast
    then have first: "check_rows_in_column part c (snd (getColumnSizeImpl co part c ps)) = None"
      by (simp add: processed_after_def)
    have earlier: "\<forall>k < j'. check_rows_in_column part (cols ! k)
        (snd (getColumnSizeImpl co part (cols ! k)
           (processed_after co part (take k cols) (fst (getColumnSizeImpl co part c ps))))) = None"
    proof (intro allI impI)
      fix k
      assume "k < j'"
      then have "Suc k < j" using Suc by simp
      with Cons.prems(2) have "check_rows_in_column part ((c # cols) ! Suc k)
          (snd (getColumnSizeImpl co part ((c # cols) ! Suc k)
             (processed_after co part (take (Suc k) (c # cols)) ps))) = None"
        by blast
      then show "check_rows_in_column part (cols ! k)
          (snd (getColumnSizeImpl co part (cols ! k)
             (processed_after co part (take k cols) (fst (getColumnSizeImpl co part c ps))))) = None"
        by (simp add: processed_after_def)
    qed
    from Cons.prems(3) Suc have at: "check_rows_in_column part (cols ! j')
        (snd (getColumnSizeImpl co part (cols ! j')
           (processed_after co part (take j' cols) (fst (getColumnSizeImpl co part c ps))))) = Some e"
      by (simp add: processed_after_def)
    from Cons.IH [OF j' earlier at] first show ?thesis
      by (simp add: Let_def)
  qed
qed

text \<open>
  C3, as the code has it.  In a pass of \<open>calculateEachColumnSizes\<close> that ends without an
  exception, over columns of distinct names, the total size grows by the bytes of every
  stream of the part counted exactly once, however many columns enumerate the stream.
  The size reported for a column is the sum over those of its streams that no earlier
  column of the part enumerates: the bytes of a shared stream are in the size of the
  first column that enumerates it and in the size of no later column.
\<close>

theorem shared_streams_counted_once:
  assumes "calculateEachColumnSizes co ndebug part each0 total0 = (each_columns_size, total_size, None)"
    and "distinct (map column_name (columns part))"
    and "i < length (columns part)"
  shows "total_size =
           total0 + (\<Sum>s \<in> streams_of_columns co part (columns part). stream_size co part s)
         \<and> each_columns_size (column_name (columns part ! i)) =
             Some (\<Sum>s \<in> set (stream_names co part (columns part ! i))
                          - streams_of_columns co part (take i (columns part)).
                     stream_size co part s)"
proof -
  from assms(1) have loop:
    "calculateEachColumnSizes_loop co ndebug part (columns part) (Some {}) each0 total0 =
       (each_columns_size, total_size, None)"
    by (simp add: calculateEachColumnSizes_def)
  from loop_total [OF loop] have total:
    "total_size = total0 + (\<Sum>s \<in> streams_of_columns co part (columns part). stream_size co part s)"
    by simp
  from loop_each [OF loop assms(2,3)] have each:
    "each_columns_size (column_name (columns part ! i)) =
       Some (\<Sum>s \<in> set (stream_names co part (columns part ! i))
                    - streams_of_columns co part (take i (columns part)).
               stream_size co part s)"
    by (simp only: column_size_in_pass)
  from total each show ?thesis by (rule conjI)
qed

text \<open>
  C3 at the part with the two array columns \<open>n.a\<close> and \<open>n.b\<close>: the total counts the
  shared stream \<open>n.size0\<close> once, and the size of \<open>n.b\<close>, the second column, is the size of
  its own stream only.
\<close>

theorem shared_streams_counted_once_witness:
  "fst (snd (calculateEachColumnSizes example_collaborators True part_nested Map.empty 0)) =
     ColumnSize 72 310 1240
   \<and> fst (calculateEachColumnSizes example_collaborators True part_nested Map.empty 0) ''n.b'' =
       Some (ColumnSize 24 200 800)"
proof -
  let ?r = "calculateEachColumnSizes example_collaborators True part_nested Map.empty 0"
  have "snd (snd ?r) = None"
    by (simp add: calculateEachColumnSizes_def loop_ndebug)
  then have 1: "?r = (fst ?r, fst (snd ?r), None)"
    by (simp add: prod_eq_iff)
  have cols: "columns part_nested = [column_a, column_b]"
    by (simp add: part_nested_def)
  have 2: "distinct (map column_name (columns part_nested))"
    by (simp add: cols column_a_def column_b_def)
  have 3: "1 < length (columns part_nested)"
    by (simp add: cols)
  have na: "stream_names example_collaborators part_nested column_a = [''n.size0'', ''n.a'']"
    by (simp add: stream_names_def part_nested_def column_a_def example_serializations_def
        getSerialization_def example_collaborators_def contains_file_def)
  have nb: "stream_names example_collaborators part_nested column_b = [''n.size0'', ''n.b'']"
    by (simp add: stream_names_def part_nested_def column_b_def example_serializations_def
        getSerialization_def example_collaborators_def contains_file_def)
  have all: "streams_of_columns example_collaborators part_nested [column_a, column_b] =
      {''n.size0'', ''n.a'', ''n.b''}"
    by (auto simp: streams_of_columns_def na nb)
  have before: "set (stream_names example_collaborators part_nested column_b)
      - streams_of_columns example_collaborators part_nested [column_a] = {''n.b''}"
    by (auto simp: streams_of_columns_def na nb)
  have ext: "getMarksFileExtension example_collaborators part_nested = ''.mrk2''"
    by (simp add: getMarksFileExtension_def example_collaborators_def part_nested_def
        info_adaptive_def)
  have s0: "stream_size example_collaborators part_nested ''n.size0'' = ColumnSize 24 10 40"
    by (simp add: stream_size_def ext) (simp add: part_nested_def)
  have sa: "stream_size example_collaborators part_nested ''n.a'' = ColumnSize 24 100 400"
    by (simp add: stream_size_def ext) (simp add: part_nested_def)
  have sb: "stream_size example_collaborators part_nested ''n.b'' = ColumnSize 24 200 800"
    by (simp add: stream_size_def ext) (simp add: part_nested_def)
  have cn: "column_name column_b = ''n.b''"
    by (simp add: column_b_def)
  show ?thesis
    using shared_streams_counted_once [OF 1 2 3]
    by (simp add: cols all before s0 sa sb ColumnSize_plus zero_ColumnSize_def cn)
qed

text \<open>
  C3 as it is written fails: the size that the pass reports for \<open>n.b\<close> leaves out the
  bytes of the shared stream \<open>n.size0\<close>, which \<open>n.b\<close> enumerates; without a set of
  processed substreams the size of \<open>n.b\<close> has them.
\<close>

theorem later_column_size_excludes_shared_stream:
  "fst (calculateEachColumnSizes example_collaborators True part_nested Map.empty 0) ''n.b'' =
     Some (ColumnSize 24 200 800)
   \<and> stream_names example_collaborators part_nested column_b = [''n.size0'', ''n.b'']
   \<and> stream_size example_collaborators part_nested ''n.size0'' = ColumnSize 24 10 40
   \<and> snd (getColumnSizeImpl example_collaborators part_nested column_b None) =
       ColumnSize 48 210 840"
proof -
  have ext: "getMarksFileExtension example_collaborators part_nested = ''.mrk2''"
    by (simp add: getMarksFileExtension_def example_collaborators_def part_nested_def
        info_adaptive_def)
  have nb: "stream_names example_collaborators part_nested column_b = [''n.size0'', ''n.b'']"
    by (simp add: stream_names_def part_nested_def column_b_def example_serializations_def
        getSerialization_def example_collaborators_def contains_file_def)
  have s0: "stream_size example_collaborators part_nested ''n.size0'' = ColumnSize 24 10 40"
    by (simp add: stream_size_def ext) (simp add: part_nested_def)
  have ra: "getFileNameOrHash example_collaborators (checksums part_nested) ''n.a'' = ''n.a''"
    and rb: "getFileNameOrHash example_collaborators (checksums part_nested) ''n.b'' = ''n.b''"
    and rs: "getFileNameOrHash example_collaborators (checksums part_nested) ''n.size0'' = ''n.size0''"
    by (simp_all add: example_collaborators_def contains_file_def part_nested_def)
  have fa: "getFileNameForStream example_collaborators c sp = concat sp" for c sp
    by (simp add: example_collaborators_def)
  have lk: "map_of (checksums part_nested) ''n.size0.bin'' = Some \<lparr>file_size = 10, uncompressed_size = 40\<rparr>"
    "map_of (checksums part_nested) ''n.size0.mrk2'' = Some \<lparr>file_size = 24, uncompressed_size = 24\<rparr>"
    "map_of (checksums part_nested) ''n.a.bin'' = Some \<lparr>file_size = 100, uncompressed_size = 400\<rparr>"
    "map_of (checksums part_nested) ''n.a.mrk2'' = Some \<lparr>file_size = 24, uncompressed_size = 24\<rparr>"
    "map_of (checksums part_nested) ''n.b.bin'' = Some \<lparr>file_size = 200, uncompressed_size = 800\<rparr>"
    "map_of (checksums part_nested) ''n.b.mrk2'' = Some \<lparr>file_size = 24, uncompressed_size = 24\<rparr>"
    by (simp_all add: part_nested_def)
  have ne: "checksums part_nested \<noteq> []"
    by (simp add: part_nested_def)
  have sera: "substream_paths (getSerialization part_nested (column_name column_a)) =
      [[''n'', ''.size0''], [''n.a'']]"
    and serb: "substream_paths (getSerialization part_nested (column_name column_b)) =
      [[''n'', ''.size0''], [''n.b'']]"
    by (simp_all add: getSerialization_def part_nested_def example_serializations_def
        column_a_def column_b_def)
  have a: "getColumnSizeImpl example_collaborators part_nested column_a (Some {}) =
      (Some {''n.a'', ''n.size0''}, ColumnSize 48 110 440)"
    by (simp add: getColumnSizeImpl_def ne enumerateStreams_def sera
        getColumnSizeImpl_callback_def fa rs ra ext lk)
  have b: "getColumnSizeImpl example_collaborators part_nested column_b (Some {''n.a'', ''n.size0''}) =
      (Some {''n.b'', ''n.a'', ''n.size0''}, ColumnSize 24 200 800)"
    by (simp add: getColumnSizeImpl_def ne enumerateStreams_def serb
        getColumnSizeImpl_callback_def fa rs rb ext lk)
  have b0: "getColumnSizeImpl example_collaborators part_nested column_b None =
      (None, ColumnSize 48 210 840)"
    by (simp add: getColumnSizeImpl_def ne enumerateStreams_def serb
        getColumnSizeImpl_callback_def fa rs rb ext lk)
  have cols: "columns part_nested = [column_a, column_b]"
    by (simp add: part_nested_def)
  have "fst (calculateEachColumnSizes example_collaborators True part_nested Map.empty 0) ''n.b'' =
      Some (ColumnSize 24 200 800)"
    by (simp add: calculateEachColumnSizes_def cols a b Let_def) (simp add: column_a_def column_b_def)
  with nb s0 b0 show ?thesis by simp
qed

text \<open>
  C9.  In a pass of \<open>calculateEachColumnSizes\<close> that ends without an exception, over
  columns of distinct names, the total size grows, in each of its three components
  (mark bytes, compressed bytes, uncompressed bytes), by the sum over the columns of
  the part of the sizes that the pass reports for them; from a total of zero it is
  that sum.  The additions are those of \<open>ColumnSize::add\<close>, in 64-bit arithmetic.
\<close>

theorem total_is_sum_of_column_sizes:
  assumes "calculateEachColumnSizes co ndebug part each0 total0 = (each_columns_size, total_size, None)"
    and "distinct (map column_name (columns part))"
  shows "marks total_size =
           marks total0 + sum_list (map (\<lambda>c. marks (reported_size each_columns_size c)) (columns part))
         \<and> data_compressed total_size =
             data_compressed total0
             + sum_list (map (\<lambda>c. data_compressed (reported_size each_columns_size c)) (columns part))
         \<and> data_uncompressed total_size =
             data_uncompressed total0
             + sum_list (map (\<lambda>c. data_uncompressed (reported_size each_columns_size c)) (columns part))"
proof -
  from assms(1) have loop:
    "calculateEachColumnSizes_loop co ndebug part (columns part) (Some {}) each0 total0 =
       (each_columns_size, total_size, None)"
    by (simp add: calculateEachColumnSizes_def)
  have total: "total_size = total0 + sum_list (map (reported_size each_columns_size) (columns part))"
    using loop assms(2) by (rule loop_sum)
  show ?thesis
    unfolding total
    by (simp add: marks_plus data_compressed_plus data_uncompressed_plus marks_sum_list
        data_compressed_sum_list data_uncompressed_sum_list comp_def)
qed

theorem total_is_sum_of_column_sizes_witness:
  "marks (fst (snd (calculateEachColumnSizes example_collaborators True part_nested Map.empty 0))) =
     marks (reported_size
              (fst (calculateEachColumnSizes example_collaborators True part_nested Map.empty 0)) column_a)
     + marks (reported_size
              (fst (calculateEachColumnSizes example_collaborators True part_nested Map.empty 0)) column_b)"
proof -
  let ?r = "calculateEachColumnSizes example_collaborators True part_nested Map.empty 0"
  have "snd (snd ?r) = None"
    by (simp add: calculateEachColumnSizes_def loop_ndebug)
  then have 1: "?r = (fst ?r, fst (snd ?r), None)"
    by (simp add: prod_eq_iff)
  have cols: "columns part_nested = [column_a, column_b]"
    by (simp add: part_nested_def)
  have 2: "distinct (map column_name (columns part_nested))"
    by (simp add: cols column_a_def column_b_def)
  show ?thesis
    using total_is_sum_of_column_sizes [OF 1 2]
    by (simp add: cols zero_ColumnSize_def)
qed

text \<open>
  C10.  For a part whose row count is zero, \<open>calculateEachColumnSizes\<close> ends without an
  exception, so it never raises the error about the derived row count, whatever the
  checksum index records and whether or not \<open>NDEBUG\<close> is defined.
\<close>

theorem no_row_count_error_for_empty_part:
  assumes "rows_count part = 0"
  shows "snd (snd (calculateEachColumnSizes co ndebug part each0 total0)) = None"
  using assms by (simp add: calculateEachColumnSizes_def loop_no_rows)

theorem no_row_count_error_for_empty_part_witness:
  "rows_count part_numeric_empty = 0
   \<and> snd (snd (calculateEachColumnSizes example_collaborators False part_numeric_empty Map.empty 0)) = None"
proof -
  have 1: "rows_count part_numeric_empty = 0"
    by (simp add: part_numeric_empty_def)
  from 1 no_row_count_error_for_empty_part [OF 1] show ?thesis by (rule conjI)
qed

text \<open>
  C7, as the code has it.  When \<open>NDEBUG\<close> is not defined and the row count of the part is
  not zero, \<open>calculateEachColumnSizes\<close> raises the logical error about the derived row
  count whenever some column of the part that is represented by a number, has no
  subtypes and has the default serialization kind has a derived row count (its
  uncompressed size, as the pass computes it, divided by the size of a value) that
  differs from the row count of the part.  The error is raised for the first such
  column of the part, and it names that column, the row count derived for it, the part
  and the row count of the part.  (The size of a value of a column represented by a
  number is not zero.)
\<close>

theorem row_count_mismatch_raises:
  assumes "rows_count part \<noteq> 0"
    and "\<forall>c \<in> set (columns part).
           isValueRepresentedByNumber (column_type c) \<longrightarrow> getSizeOfValueInMemory (column_type c) \<noteq> 0"
    and "i < length (columns part)"
    and "row_count_mismatch co part i"
  shows "\<exists>j \<le> i.
           row_count_mismatch co part j
           \<and> (\<forall>k < j. \<not> row_count_mismatch co part k)
           \<and> snd (snd (calculateEachColumnSizes co False part each0 total0)) =
               Some (Exception LOGICAL_ERROR
                 ''Column {} has rows count {} according to size in memory and size of single value, but data part {} has {} rows''
                 [BackQuote (column_name (columns part ! j)), Num (derived_rows_count co part j),
                  Str (name part), Num (rows_count part)])"
proof -
  let ?sz = "\<lambda>k. snd (getColumnSizeImpl co part (columns part ! k)
                        (processed_after co part (take k (columns part)) (Some {})))"
  define j where "j = (LEAST k. row_count_mismatch co part k)"
  have mj: "row_count_mismatch co part j"
    unfolding j_def using assms(4) by (rule LeastI)
  have ji: "j \<le> i"
    unfolding j_def using assms(4) by (rule Least_le)
  have least: "\<forall>k < j. \<not> row_count_mismatch co part k"
    unfolding j_def by (auto dest: not_less_Least)
  from ji assms(3) have jl: "j < length (columns part)" by simp
  have earlier: "\<forall>k < j. check_rows_in_column part (columns part ! k) (?sz k) = None"
  proof (intro allI impI)
    fix k
    assume kj: "k < j"
    with jl have "columns part ! k \<in> set (columns part)" by simp
    with assms(2) have w:
      "isValueRepresentedByNumber (column_type (columns part ! k)) \<longrightarrow>
         getSizeOfValueInMemory (column_type (columns part ! k)) \<noteq> 0"
      by blast
    from least kj have "\<not> row_count_mismatch co part k" by blast
    with w show "check_rows_in_column part (columns part ! k) (?sz k) = None"
      by (auto simp: check_rows_in_column_def row_count_mismatch_def derived_rows_count_def
          pass_column_size_def Let_def)
  qed
  from jl have "columns part ! j \<in> set (columns part)" by simp
  with assms(2) mj have wj: "getSizeOfValueInMemory (column_type (columns part ! j)) \<noteq> 0"
    by (simp add: row_count_mismatch_def)
  have at: "check_rows_in_column part (columns part ! j) (?sz j) =
      Some (Exception LOGICAL_ERROR
        ''Column {} has rows count {} according to size in memory and size of single value, but data part {} has {} rows''
        [BackQuote (column_name (columns part ! j)), Num (derived_rows_count co part j),
         Str (name part), Num (rows_count part)])"
    using mj wj assms(1)
    by (simp add: check_rows_in_column_def row_count_mismatch_def derived_rows_count_def
        pass_column_size_def Let_def)
  have "snd (snd (calculateEachColumnSizes co False part each0 total0)) =
      Some (Exception LOGICAL_ERROR
        ''Column {} has rows count {} according to size in memory and size of single value, but data part {} has {} rows''
        [BackQuote (column_name (columns part ! j)), Num (derived_rows_count co part j),
         Str (name part), Num (rows_count part)])"
    unfolding calculateEachColumnSizes_def
    using jl earlier at by (rule loop_first_error)
  with ji mj least show ?thesis by blast
qed

text \<open>
  C7 at the part of 1000 rows whose numeric column has 7992 uncompressed bytes, 999
  values of 8 bytes: the error names the column \<open>x\<close>, the derived row count 999, the
  part and its row count 1000.
\<close>

theorem row_count_mismatch_raises_witness:
  "row_count_mismatch example_collaborators part_numeric 0
   \<and> derived_rows_count example_collaborators part_numeric 0 = 999
   \<and> snd (snd (calculateEachColumnSizes example_collaborators False part_numeric Map.empty 0)) =
       Some (Exception LOGICAL_ERROR
         ''Column {} has rows count {} according to size in memory and size of single value, but data part {} has {} rows''
         [BackQuote ''x'', Num 999, Str ''all_2_2_0'', Num 1000])"
proof -
  have cols: "columns part_numeric = [column_x]"
    by (simp add: part_numeric_def)
  have 1: "rows_count part_numeric \<noteq> 0" and rows: "rows_count part_numeric = 1000"
    by (simp_all add: part_numeric_def)
  have 2: "\<forall>c \<in> set (columns part_numeric).
      isValueRepresentedByNumber (column_type c) \<longrightarrow> getSizeOfValueInMemory (column_type c) \<noteq> 0"
    by (simp add: cols column_x_def uint64_type_def)
  have 3: "0 < length (columns part_numeric)"
    by (simp add: cols)
  have ext: "getMarksFileExtension example_collaborators part_numeric = ''.mrk2''"
    by (simp add: getMarksFileExtension_def example_collaborators_def part_numeric_def
        info_adaptive_def)
  have names: "stream_names example_collaborators part_numeric column_x = [''x'']"
    by (simp add: stream_names_def part_numeric_def column_x_def example_serializations_def
        getSerialization_def example_collaborators_def contains_file_def)
  have sx: "stream_size example_collaborators part_numeric ''x'' = ColumnSize 72 4000 7992"
    by (simp add: stream_size_def ext) (simp add: part_numeric_def)
  have sz: "pass_column_size example_collaborators part_numeric 0 = ColumnSize 72 4000 7992"
    unfolding pass_column_size_def column_size_in_pass
    by (simp add: cols names streams_of_columns_def sx)
  have q: "derived_rows_count example_collaborators part_numeric 0 = 999"
    by (simp add: derived_rows_count_def sz cols column_x_def uint64_type_def)
  have 4: "row_count_mismatch example_collaborators part_numeric 0"
    unfolding row_count_mismatch_def q rows
    by (simp add: cols column_x_def uint64_type_def getSerialization_def part_numeric_def
        example_serializations_def)
  have cn: "column_name (columns part_numeric ! 0) = ''x''"
    by (simp add: cols column_x_def)
  have pn: "name part_numeric = ''all_2_2_0''"
    by (simp add: part_numeric_def)
  from row_count_mismatch_raises [OF 1 2 3 4, of Map.empty 0]
  have "snd (snd (calculateEachColumnSizes example_collaborators False part_numeric Map.empty 0)) =
      Some (Exception LOGICAL_ERROR
        ''Column {} has rows count {} according to size in memory and size of single value, but data part {} has {} rows''
        [BackQuote (column_name (columns part_numeric ! 0)),
         Num (derived_rows_count example_collaborators part_numeric 0),
         Str (name part_numeric), Num (rows_count part_numeric)])"
    by simp
  then have "snd (snd (calculateEachColumnSizes example_collaborators False part_numeric Map.empty 0)) =
      Some (Exception LOGICAL_ERROR
        ''Column {} has rows count {} according to size in memory and size of single value, but data part {} has {} rows''
        [BackQuote ''x'', Num 999, Str ''all_2_2_0'', Num 1000])"
    by (simp only: cn q pn rows)
  with 4 q show ?thesis by simp
qed

text \<open>
  C7 as it is written fails.  With a row count of zero no error is raised, although the
  numeric column has 999 values by its uncompressed size; and when \<open>NDEBUG\<close> is defined no
  error is raised for the part of 1000 rows either.
\<close>

theorem row_count_mismatch_not_raised:
  "rows_count part_numeric_empty = 0
   \<and> data_uncompressed (pass_column_size example_collaborators part_numeric_empty 0)
       div getSizeOfValueInMemory (column_type (columns part_numeric_empty ! 0)) = 999
   \<and> isValueRepresentedByNumber (column_type (columns part_numeric_empty ! 0))
   \<and> \<not> haveSubtypes (column_type (columns part_numeric_empty ! 0))
   \<and> getKind (getSerialization part_numeric_empty (column_name (columns part_numeric_empty ! 0))) = DEFAULT
   \<and> snd (snd (calculateEachColumnSizes example_collaborators False part_numeric_empty Map.empty 0)) = None
   \<and> rows_count part_numeric = 1000
   \<and> snd (snd (calculateEachColumnSizes example_collaborators True part_numeric Map.empty 0)) = None"
proof -
  have cols: "columns part_numeric_empty = [column_x]"
    by (simp add: part_numeric_empty_def part_numeric_def)
  have ext: "getMarksFileExtension example_collaborators part_numeric_empty = ''.mrk2''"
    by (simp add: getMarksFileExtension_def example_collaborators_def part_numeric_empty_def
        part_numeric_def info_adaptive_def)
  have names: "stream_names example_collaborators part_numeric_empty column_x = [''x'']"
    by (simp add: stream_names_def part_numeric_empty_def part_numeric_def column_x_def
        example_serializations_def getSerialization_def example_collaborators_def contains_file_def)
  have sx: "stream_size example_collaborators part_numeric_empty ''x'' = ColumnSize 72 4000 7992"
    by (simp add: stream_size_def ext) (simp add: part_numeric_empty_def part_numeric_def)
  have sz: "pass_column_size example_collaborators part_numeric_empty 0 = ColumnSize 72 4000 7992"
    unfolding pass_column_size_def column_size_in_pass
    by (simp add: cols names streams_of_columns_def sx)
  have q: "data_uncompressed (pass_column_size example_collaborators part_numeric_empty 0)
      div getSizeOfValueInMemory (column_type (columns part_numeric_empty ! 0)) = 999"
    by (simp add: sz cols column_x_def uint64_type_def)
  have r0: "rows_count part_numeric_empty = 0"
    by (simp add: part_numeric_empty_def)
  have t: "isValueRepresentedByNumber (column_type (columns part_numeric_empty ! 0))"
    "\<not> haveSubtypes (column_type (columns part_numeric_empty ! 0))"
    "getKind (getSerialization part_numeric_empty (column_name (columns part_numeric_empty ! 0))) = DEFAULT"
    by (simp_all add: cols column_x_def uint64_type_def getSerialization_def part_numeric_empty_def
        part_numeric_def example_serializations_def)
  have debug: "snd (snd (calculateEachColumnSizes example_collaborators False part_numeric_empty
      Map.empty 0)) = None"
    by (simp add: calculateEachColumnSizes_def cols check_rows_in_column_def r0 Let_def)
  have r1: "rows_count part_numeric = 1000"
    by (simp add: part_numeric_def)
  have release: "snd (snd (calculateEachColumnSizes example_collaborators True part_numeric
      Map.empty 0)) = None"
    by (simp add: calculateEachColumnSizes_def part_numeric_def Let_def)
  from r0 q t debug r1 release show ?thesis by simp
qed

section \<open>Consistency check\<close>

lemma for_each_unit_None:
  "snd (for_each_throwing body xs (u::unit)) = None \<longleftrightarrow> (\<forall>x\<in>set xs. snd (body x ()) = None)"
proof (induction xs)
  case Nil
  then show ?case by simp
next
  case (Cons x xs)
  then show ?case
    by (cases "body x ()") (auto split: option.splits)
qed

lemma for_each_unit_Some:
  "snd (for_each_throwing body xs (u::unit)) = Some e \<Longrightarrow> \<exists>x\<in>set xs. snd (body x ()) = Some e"
proof (induction xs)
  case Nil
  then show ?case by simp
next
  case (Cons x xs)
  then show ?case
    by (cases "body x ()") (auto split: option.splits)
qed

lemma checksums_callback_None:
  "snd (checkConsistency_checksums_callback co part (getMarksFileExtension co part) column sp ()) = None
     \<longleftrightarrow> has_both_entries co part
           (getFileNameOrHash co (checksums part) (getFileNameForStream co column sp))"
  by (auto simp: checkConsistency_checksums_callback_def Let_def has_both_entries_def)

lemma checksums_callback_Some:
  "snd (checkConsistency_checksums_callback co part (getMarksFileExtension co part) column sp ()) = Some e
     \<Longrightarrow> \<exists>file_name.
           e = Exception NO_FILE_IN_DATA_PART (format e)
                 [Str file_name, Str (column_name column), Str (getFullPath (data_part_storage part))]
           \<and> \<not> contains_file (checksums part) file_name
           \<and> (file_name = getFileNameOrHash co (checksums part) (getFileNameForStream co column sp)
                            @ getMarksFileExtension co part
              \<or> file_name = getFileNameOrHash co (checksums part) (getFileNameForStream co column sp)
                            @ DATA_FILE_EXTENSION)"
  by (auto simp: checkConsistency_checksums_callback_def Let_def split: if_splits)

lemma checkConsistency_checksums:
  assumes "checkConsistencyBase co part = None" and "checksums part \<noteq> []"
  shows "checkConsistency co part True =
           snd (for_each_throwing
                  (\<lambda>name_type.
                     enumerateStreamsThrowing (getSerialization part (column_name name_type))
                       (checkConsistency_checksums_callback co part (getMarksFileExtension co part) name_type))
                  (columns part) ())"
  using assms by (simp add: checkConsistency_def getMarksFileExtension_def)

text \<open>
  C4.  When the checksum index is not empty, part metadata is required and the checks of
  the base class pass, \<open>checkConsistency\<close> passes exactly when every enumerated stream of
  every column has both its data-file entry and its mark-file entry in the checksum
  index.  Otherwise it raises \<open>NO_FILE_IN_DATA_PART\<close>, and the error names the missing
  file of a stream of a column (the mark file or the data file), that column and the
  path of the part.
\<close>

theorem full_metadata_check:
  assumes "checkConsistencyBase co part = None" and "checksums part \<noteq> []"
  shows "(checkConsistency co part True = None \<longleftrightarrow>
            (\<forall>column \<in> set (columns part). \<forall>s \<in> set (stream_names co part column).
               has_both_entries co part s))
         \<and> (\<forall>e. checkConsistency co part True = Some e \<longrightarrow>
               error_code e = NO_FILE_IN_DATA_PART
               \<and> (\<exists>column \<in> set (columns part). \<exists>s \<in> set (stream_names co part column).
                     \<exists>file_name.
                       args e = [Str file_name, Str (column_name column),
                                 Str (getFullPath (data_part_storage part))]
                       \<and> \<not> contains_file (checksums part) file_name
                       \<and> (file_name = s @ getMarksFileExtension co part
                          \<or> file_name = s @ DATA_FILE_EXTENSION)))"
proof (intro conjI allI impI)
  show "checkConsistency co part True = None \<longleftrightarrow>
      (\<forall>column \<in> set (columns part). \<forall>s \<in> set (stream_names co part column).
         has_both_entries co part s)"
    unfolding checkConsistency_checksums [OF assms]
    by (simp add: for_each_unit_None enumerateStreamsThrowing_def checksums_callback_None
        stream_names_def)
next
  fix e
  assume "checkConsistency co part True = Some e"
  then obtain column where c: "column \<in> set (columns part)"
    and "snd (enumerateStreamsThrowing (getSerialization part (column_name column))
           (checkConsistency_checksums_callback co part (getMarksFileExtension co part) column) ()) = Some e"
    unfolding checkConsistency_checksums [OF assms]
    by (blast dest: for_each_unit_Some)
  then obtain sp where sp: "sp \<in> set (substream_paths (getSerialization part (column_name column)))"
    and e: "snd (checkConsistency_checksums_callback co part (getMarksFileExtension co part) column sp ()) = Some e"
    unfolding enumerateStreamsThrowing_def by (blast dest: for_each_unit_Some)
  let ?s = "getFileNameOrHash co (checksums part) (getFileNameForStream co column sp)"
  from sp have s: "?s \<in> set (stream_names co part column)"
    by (auto simp: stream_names_def)
  from checksums_callback_Some [OF e] obtain file_name where
    f: "e = Exception NO_FILE_IN_DATA_PART (format e)
           [Str file_name, Str (column_name column), Str (getFullPath (data_part_storage part))]"
    "\<not> contains_file (checksums part) file_name"
    "file_name = ?s @ getMarksFileExtension co part \<or> file_name = ?s @ DATA_FILE_EXTENSION"
    by blast
  from f(1) have code: "error_code e = NO_FILE_IN_DATA_PART"
    and args: "args e = [Str file_name, Str (column_name column), Str (getFullPath (data_part_storage part))]"
    by (metis Exception.sel(1), metis Exception.sel(3))
  show "error_code e = NO_FILE_IN_DATA_PART" by (rule code)
  show "\<exists>column \<in> set (columns part). \<exists>s \<in> set (stream_names co part column).
          \<exists>file_name.
            args e = [Str file_name, Str (column_name column),
                      Str (getFullPath (data_part_storage part))]
            \<and> \<not> contains_file (checksums part) file_name
            \<and> (file_name = s @ getMarksFileExtension co part
               \<or> file_name = s @ DATA_FILE_EXTENSION)"
    using c s args f(2,3) by blast
qed

text \<open>
  C4 at the part whose checksum index lacks the mark file of \<open>n.b\<close>: the check raises the
  error that names \<open>n.b.mrk2\<close>, the column \<open>n.b\<close> and the part.
\<close>

theorem full_metadata_check_witness:
  "checkConsistency example_collaborators part_missing_mark True \<noteq> None
   \<and> error_code (the (checkConsistency example_collaborators part_missing_mark True)) =
       NO_FILE_IN_DATA_PART
   \<and> checkConsistency example_collaborators part_missing_mark True =
       Some (Exception NO_FILE_IN_DATA_PART ''No {} file checksum for column {} in part {} ''
               [Str ''n.b.mrk2'', Str ''n.b'', Str ''/part''])"
proof -
  have 1: "checkConsistencyBase example_collaborators part_missing_mark = None"
    by (simp add: example_collaborators_def)
  have 2: "checksums part_missing_mark \<noteq> []"
    by (simp add: part_missing_mark_def)
  have cols: "columns part_missing_mark = [column_a, column_b]"
    by (simp add: part_missing_mark_def part_nested_def)
  have ext: "getMarksFileExtension example_collaborators part_missing_mark = ''.mrk2''"
    and ext': "getFileExtension example_collaborators (mark_type (index_granularity_info part_missing_mark)) = ''.mrk2''"
    by (simp_all add: getMarksFileExtension_def example_collaborators_def part_missing_mark_def
        part_nested_def info_adaptive_def)
  have nb: "stream_names example_collaborators part_missing_mark column_b = [''n.size0'', ''n.b'']"
    by (simp add: stream_names_def part_missing_mark_def part_nested_def column_b_def
        example_serializations_def getSerialization_def example_collaborators_def contains_file_def)
  have missing: "\<not> has_both_entries example_collaborators part_missing_mark ''n.b''"
    by (simp add: has_both_entries_def ext contains_file_def) (simp add: part_missing_mark_def)
  have "\<not> (\<forall>column \<in> set (columns part_missing_mark).
            \<forall>s \<in> set (stream_names example_collaborators part_missing_mark column).
              has_both_entries example_collaborators part_missing_mark s)"
    using missing by (simp add: cols nb)
  with full_metadata_check [OF 1 2]
  have raised: "checkConsistency example_collaborators part_missing_mark True \<noteq> None"
    and code: "\<forall>e. checkConsistency example_collaborators part_missing_mark True = Some e \<longrightarrow>
        error_code e = NO_FILE_IN_DATA_PART"
    by simp_all
  from raised code
  have c: "error_code (the (checkConsistency example_collaborators part_missing_mark True)) =
      NO_FILE_IN_DATA_PART"
    by auto
  have fa: "getFileNameForStream example_collaborators c sp = concat sp" for c sp
    by (simp add: example_collaborators_def)
  have r: "getFileNameOrHash example_collaborators (checksums part_missing_mark) ''n.a'' = ''n.a''"
    "getFileNameOrHash example_collaborators (checksums part_missing_mark) ''n.b'' = ''n.b''"
    "getFileNameOrHash example_collaborators (checksums part_missing_mark) ''n.size0'' = ''n.size0''"
    by (simp_all add: example_collaborators_def contains_file_def part_missing_mark_def)
  have has: "contains_file (checksums part_missing_mark) ''n.size0.bin''"
    "contains_file (checksums part_missing_mark) ''n.size0.mrk2''"
    "contains_file (checksums part_missing_mark) ''n.a.bin''"
    "contains_file (checksums part_missing_mark) ''n.a.mrk2''"
    "contains_file (checksums part_missing_mark) ''n.b.bin''"
    "\<not> contains_file (checksums part_missing_mark) ''n.b.mrk2''"
    by (simp_all add: contains_file_def part_missing_mark_def)
  have ser: "substream_paths (getSerialization part_missing_mark (column_name column_a)) =
      [[''n'', ''.size0''], [''n.a'']]"
    "substream_paths (getSerialization part_missing_mark (column_name column_b)) =
      [[''n'', ''.size0''], [''n.b'']]"
    by (simp_all add: getSerialization_def part_missing_mark_def part_nested_def
        example_serializations_def column_a_def column_b_def)
  have path: "getFullPath (data_part_storage part_missing_mark) = ''/part''"
    by (simp add: part_missing_mark_def part_nested_def empty_storage_def)
  have v: "checkConsistency example_collaborators part_missing_mark True =
      Some (Exception NO_FILE_IN_DATA_PART ''No {} file checksum for column {} in part {} ''
              [Str ''n.b.mrk2'', Str ''n.b'', Str ''/part''])"
    by (simp add: checkConsistency_def 1 2 ext' cols enumerateStreamsThrowing_def ser
        checkConsistency_checksums_callback_def fa r has DATA_FILE_EXTENSION_def path)
       (simp add: column_b_def)
  from raised c v show ?thesis by simp
qed

text \<open>
  C5 at parts without checksums.  The mark file of the stream \<open>n.a\<close> is on the storage
  under the hashed name of the stream, \<open>h_n.a.mrk2\<close>.  \<open>checkConsistency\<close> looks for
  \<open>n.a.mrk2\<close> and then for the hash of that file name with the extension appended again,
  finds neither, and passes, although the mark file has 32 bytes beside a mark file of
  48 bytes, or is empty.  With both mark files under their literal names the sizes 48
  and 32 raise the error about marks of different sizes.
\<close>

theorem checkConsistency_misses_hashed_mark_files:
  "resolved_mark_file example_collaborators part_hashed_marks column_a [''n'', ''.size0''] =
     Some ''n.size0.mrk2''
   \<and> resolved_mark_file example_collaborators part_hashed_marks column_a [''n.a''] =
       Some ''h_n.a.mrk2''
   \<and> getFileSize (data_part_storage part_hashed_marks) ''n.size0.mrk2'' = 48
   \<and> getFileSize (data_part_storage part_hashed_marks) ''h_n.a.mrk2'' = 32
   \<and> checkConsistency example_collaborators part_hashed_marks False = None
   \<and> resolved_mark_file example_collaborators part_hashed_mark_empty column_a [''n.a''] =
       Some ''h_n.a.mrk2''
   \<and> getFileSize (data_part_storage part_hashed_mark_empty) ''h_n.a.mrk2'' = 0
   \<and> checkConsistency example_collaborators part_hashed_mark_empty False = None
   \<and> checkConsistency example_collaborators part_no_checksums False =
       Some (Exception BAD_SIZE_OF_FILE_IN_DATA_PART
               ''Part {} is broken: marks have different sizes.'' [Str ''/part''])"
proof -
  have fa: "getFileNameForStream example_collaborators c sp = concat sp" for c sp
    by (simp add: example_collaborators_def)
  have h: "sipHash128String example_collaborators = example_hash"
    by (simp add: example_collaborators_def)
  have base: "checkConsistencyBase example_collaborators p = None" for p
    by (simp add: example_collaborators_def)
  have ser: "substream_paths (getSerialization part_nested (column_name column_a)) =
      [[''n'', ''.size0''], [''n.a'']]"
    "substream_paths (getSerialization part_nested (column_name column_b)) =
      [[''n'', ''.size0''], [''n.b'']]"
    by (simp_all add: getSerialization_def part_nested_def example_serializations_def
        column_a_def column_b_def)
  have cols: "columns part_nested = [column_a, column_b]"
    by (simp add: part_nested_def)
  have fext: "getFileExtension example_collaborators (mark_type (index_granularity_info part_nested)) =
      ''.mrk2''"
    by (simp add: example_collaborators_def part_nested_def info_adaptive_def)
  have hashes: "example_hash ''n.a'' = ''h_n.a''" "example_hash ''n.a.mrk2'' = ''h_n.a.''"
    "example_hash ''n.b.mrk2'' = ''h_n.b.''"
    by (simp_all add: example_hash_def)

  have m_ext: "getMarksFileExtension example_collaborators part_hashed_marks = ''.mrk2''"
    by (simp add: getMarksFileExtension_def part_hashed_marks_def fext)
  have m_cols: "columns part_hashed_marks = [column_a, column_b]"
    by (simp add: part_hashed_marks_def cols)
  have m_ser: "getSerialization part_hashed_marks = getSerialization part_nested"
    by (rule ext) (simp add: getSerialization_def part_hashed_marks_def)
  have m_cs: "checksums part_hashed_marks = []"
    by (simp add: part_hashed_marks_def)
  have m_ex: "exists_file (data_part_storage part_hashed_marks) ''n.size0.mrk2''"
    "exists_file (data_part_storage part_hashed_marks) ''h_n.a.mrk2''"
    "\<not> exists_file (data_part_storage part_hashed_marks) ''n.a.mrk2''"
    "\<not> exists_file (data_part_storage part_hashed_marks) ''n.b.mrk2''"
    "\<not> exists_file (data_part_storage part_hashed_marks) ''h_n.a..mrk2''"
    "\<not> exists_file (data_part_storage part_hashed_marks) ''h_n.b..mrk2''"
    by (simp_all add: exists_file_def part_hashed_marks_def)
  have m_sz: "getFileSize (data_part_storage part_hashed_marks) ''n.size0.mrk2'' = 48"
    "getFileSize (data_part_storage part_hashed_marks) ''h_n.a.mrk2'' = 32"
    by (simp_all add: getFileSize_def part_hashed_marks_def)
  have m_r0: "resolved_mark_file example_collaborators part_hashed_marks column_a [''n'', ''.size0''] =
      Some ''n.size0.mrk2''"
    by (simp add: resolved_mark_file_def fa m_ext m_ex)
  have m_r1: "resolved_mark_file example_collaborators part_hashed_marks column_a [''n.a''] =
      Some ''h_n.a.mrk2''"
    by (simp add: resolved_mark_file_def fa m_ext h hashes m_ex)
  have m_chk: "checkConsistency example_collaborators part_hashed_marks False = None"
    by (simp add: checkConsistency_def base m_cs m_cols m_ser ser enumerateStreamsThrowing_def
        m_ext [unfolded getMarksFileExtension_def]
        checkConsistency_marks_callback_def fa h hashes Let_def m_ex m_sz)

  have e_ext: "getMarksFileExtension example_collaborators part_hashed_mark_empty = ''.mrk2''"
    by (simp add: getMarksFileExtension_def part_hashed_mark_empty_def fext)
  have e_cols: "columns part_hashed_mark_empty = [column_a, column_b]"
    by (simp add: part_hashed_mark_empty_def cols)
  have e_ser: "getSerialization part_hashed_mark_empty = getSerialization part_nested"
    by (rule ext) (simp add: getSerialization_def part_hashed_mark_empty_def)
  have e_cs: "checksums part_hashed_mark_empty = []"
    by (simp add: part_hashed_mark_empty_def)
  have e_ex: "exists_file (data_part_storage part_hashed_mark_empty) ''n.size0.mrk2''"
    "exists_file (data_part_storage part_hashed_mark_empty) ''h_n.a.mrk2''"
    "\<not> exists_file (data_part_storage part_hashed_mark_empty) ''n.a.mrk2''"
    "\<not> exists_file (data_part_storage part_hashed_mark_empty) ''n.b.mrk2''"
    "\<not> exists_file (data_part_storage part_hashed_mark_empty) ''h_n.a..mrk2''"
    "\<not> exists_file (data_part_storage part_hashed_mark_empty) ''h_n.b..mrk2''"
    by (simp_all add: exists_file_def part_hashed_mark_empty_def)
  have e_sz: "getFileSize (data_part_storage part_hashed_mark_empty) ''n.size0.mrk2'' = 48"
    "getFileSize (data_part_storage part_hashed_mark_empty) ''h_n.a.mrk2'' = 0"
    by (simp_all add: getFileSize_def part_hashed_mark_empty_def)
  have e_r1: "resolved_mark_file example_collaborators part_hashed_mark_empty column_a [''n.a''] =
      Some ''h_n.a.mrk2''"
    by (simp add: resolved_mark_file_def fa e_ext h hashes e_ex)
  have e_chk: "checkConsistency example_collaborators part_hashed_mark_empty False = None"
    by (simp add: checkConsistency_def base e_cs e_cols e_ser ser enumerateStreamsThrowing_def
        e_ext [unfolded getMarksFileExtension_def]
        checkConsistency_marks_callback_def fa h hashes Let_def e_ex e_sz)

  have l_ext: "getMarksFileExtension example_collaborators part_no_checksums = ''.mrk2''"
    by (simp add: getMarksFileExtension_def part_no_checksums_def fext)
  have l_cols: "columns part_no_checksums = [column_a, column_b]"
    by (simp add: part_no_checksums_def cols)
  have l_ser: "getSerialization part_no_checksums = getSerialization part_nested"
    by (rule ext) (simp add: getSerialization_def part_no_checksums_def)
  have l_cs: "checksums part_no_checksums = []"
    by (simp add: part_no_checksums_def)
  have l_path: "getFullPath (data_part_storage part_no_checksums) = ''/part''"
    by (simp add: part_no_checksums_def)
  have l_ex: "exists_file (data_part_storage part_no_checksums) ''n.size0.mrk2''"
    "exists_file (data_part_storage part_no_checksums) ''n.a.mrk2''"
    by (simp_all add: exists_file_def part_no_checksums_def)
  have l_sz: "getFileSize (data_part_storage part_no_checksums) ''n.size0.mrk2'' = 48"
    "getFileSize (data_part_storage part_no_checksums) ''n.a.mrk2'' = 32"
    by (simp_all add: getFileSize_def part_no_checksums_def)
  have l_chk: "checkConsistency example_collaborators part_no_checksums False =
      Some (Exception BAD_SIZE_OF_FILE_IN_DATA_PART
              ''Part {} is broken: marks have different sizes.'' [Str ''/part''])"
    by (simp add: checkConsistency_def base l_cs l_cols l_ser ser enumerateStreamsThrowing_def
        l_ext [unfolded getMarksFileExtension_def]
        checkConsistency_marks_callback_def fa Let_def l_ex l_sz l_path)
  from m_r0 m_r1 m_sz m_chk e_r1 e_sz e_chk l_chk show ?thesis by simp
qed

section \<open>Column files\<close>

lemma hasColumnFiles_fold:
  "fold (\<lambda>sp res. if \<not> P sp then False else res) sps b = (b \<and> (\<forall>sp \<in> set sps. P sp))"
  by (induction sps arbitrary: b) auto

text \<open>
  \<open>hasColumnFiles\<close> looks the two files of each enumerated stream up under the file name
  of the stream as \<open>getFileNameForStream\<close> gives it, not under the name resolved against
  the checksum index.
\<close>

lemma hasColumnFiles_literal_names:
  "hasColumnFiles co part column \<longleftrightarrow>
     (\<forall>sp \<in> set (substream_paths (getSerialization part (column_name column))).
        has_both_entries co part (getFileNameForStream co column sp))"
  by (simp add: hasColumnFiles_def Let_def enumerateStreams_def hasColumnFiles_fold
      has_both_entries_def contains_file_def getMarksFileExtension_def)

text \<open>
  C6 at the part whose column has its files registered under the hash of the stream
  name.  The stream resolves to the hashed name, both its entries are in the checksum
  index and \<open>checkConsistency\<close> with part metadata required passes, yet
  \<open>hasColumnFiles\<close> is false.
\<close>

theorem hasColumnFiles_misses_hashed_names:
  "stream_names example_collaborators part_hashed column_long = [''h_long'']
   \<and> has_both_entries example_collaborators part_hashed ''h_long''
   \<and> checkConsistency example_collaborators part_hashed True = None
   \<and> hasColumnFiles example_collaborators part_hashed column_long = False"
proof -
  have ext: "getMarksFileExtension example_collaborators part_hashed = ''.mrk2''"
    and ext': "getFileExtension example_collaborators (mark_type (index_granularity_info part_hashed)) = ''.mrk2''"
    by (simp_all add: getMarksFileExtension_def example_collaborators_def part_hashed_def
        info_adaptive_def)
  have has: "contains_file (checksums part_hashed) ''h_long.bin''"
    "contains_file (checksums part_hashed) ''h_long.mrk2''"
    "\<not> contains_file (checksums part_hashed) ''long_column_name.bin''"
    by (simp_all add: contains_file_def part_hashed_def)
  have ser: "substream_paths (getSerialization part_hashed (column_name column_long)) =
      [[''long_column_name'']]"
    by (simp add: getSerialization_def part_hashed_def example_serializations_def column_long_def)
  have fa: "getFileNameForStream example_collaborators c sp = concat sp" for c sp
    by (simp add: example_collaborators_def)
  have r: "getFileNameOrHash example_collaborators (checksums part_hashed) ''long_column_name'' = ''h_long''"
    using has by (simp add: example_collaborators_def example_hash_def)
  have names: "stream_names example_collaborators part_hashed column_long = [''h_long'']"
    by (simp add: stream_names_def ser fa r)
  have both: "has_both_entries example_collaborators part_hashed ''h_long''"
    using has by (simp add: has_both_entries_def ext DATA_FILE_EXTENSION_def)
  have cols: "columns part_hashed = [column_long]"
    by (simp add: part_hashed_def)
  have ne: "checksums part_hashed \<noteq> []"
    by (simp add: part_hashed_def)
  have base: "checkConsistencyBase example_collaborators part_hashed = None"
    by (simp add: example_collaborators_def)
  have chk: "checkConsistency example_collaborators part_hashed True = None"
    by (simp add: checkConsistency_def base ne ext' cols enumerateStreamsThrowing_def ser
        checkConsistency_checksums_callback_def fa r has DATA_FILE_EXTENSION_def)
  have "\<not> hasColumnFiles example_collaborators part_hashed column_long"
    using has
    by (simp add: hasColumnFiles_def Let_def ext' enumerateStreams_def ser fa
        DATA_FILE_EXTENSION_def contains_file_def)
  with names both chk show ?thesis by simp
qed

section \<open>Loading the index granularity\<close>

lemma length_to_little_endian: "length (to_little_endian n w) = n"
  by (induction n arbitrary: w) simp_all

lemma from_to_little_endian: "from_little_endian (to_little_endian n w) = take_bit (8 * n) w"
proof (induction n arbitrary: w)
  case 0
  then show ?case by simp
next
  case (Suc n)
  show ?case
    by (rule bit_word_eqI) (auto simp: Suc bit_simps)
qed

lemma from_to_little_endian_8: "from_little_endian (to_little_endian 8 w) = w"
  by (simp add: from_to_little_endian take_bit_word_eq_self)

lemma readBinary_encoded: "readBinary (to_little_endian 8 w @ rest) = Inr (w, rest)"
  using from_to_little_endian_8 [of w] length_to_little_endian [of 8 w]
  by (simp add: readBinary_def)

lemma mark_record_bytes_nonempty: "mark_record_bytes a r @ rest \<noteq> []"
  by (simp add: mark_record_bytes_def eval_nat_numeral)

lemma read_marks_loop_step:
  "read_marks_loop a (mark_record_bytes a r @ rest) c g =
     read_marks_loop a rest (c + 1) (if a then appendMark (granularity r) g else g)"
proof -
  have ne: "mark_record_bytes a r @ rest \<noteq> []" by (rule mark_record_bytes_nonempty)
  show ?thesis
    apply (subst read_marks_loop.simps)
    apply (simp only: ne if_False)
    apply (simp add: mark_record_bytes_def readBinary_encoded readIntBinary_def)
    done
qed

lemma read_marks_loop_encoded:
  "read_marks_loop a (mark_file_bytes a records) c g =
     (c + of_nat (length records),
      g\<lparr>marks_rows := marks_rows g @ (if a then map granularity records else [])\<rparr>,
      None)"
proof (induction records arbitrary: c g)
  case Nil
  then show ?case
    by (simp add: mark_file_bytes_def read_marks_loop.simps)
next
  case (Cons r records)
  have "read_marks_loop a (mark_file_bytes a (r # records)) c g =
      read_marks_loop a (mark_file_bytes a records) (c + 1)
        (if a then appendMark (granularity r) g else g)"
    using read_marks_loop_step [of a r "mark_file_bytes a records" c g]
    by (simp add: mark_file_bytes_def)
  then show ?case
    by (simp add: Cons.IH appendMark_def add.assoc)
qed

text \<open>
  C1.  When the mark format, after the adjustment of the granularity information to the
  storage, is neither adaptive nor compressed and the mark file exists,
  \<open>loadIndexGranularityImpl\<close> ends without an exception; the number of marks of the
  table is the size of the mark file divided by the size of a mark record, every entry
  of the table is the fixed granularity, and the table is initialized.
\<close>

theorem fixed_marks_from_file_size:
  assumes "info = changeGranularityIfRequired co storage info0"
    and "\<not> adaptive (mark_type info)"
    and "\<not> compressed (mark_type info)"
    and "exists_file storage (getMarksFilePath co info file_name)"
  shows "loadIndexGranularityImpl co g0 info0 storage file_name =
           (g0\<lparr>marks_rows :=
                  replicate
                    (unat (getFileSize storage (getMarksFilePath co info file_name)
                             div getMarkSizeInBytes info))
                    (fixed_index_granularity info),
                initialized := True\<rparr>,
            info, None)"
  using assms
  by (auto simp: loadIndexGranularityImpl_def Let_def exists_file_def setInitialized_def
      resizeWithFixedGranularity_def)

text \<open>
  C1 at a mark file of 48 bytes with the fixed granularity 8192: three marks of 8192
  rows.
\<close>

theorem fixed_marks_from_file_size_witness:
  "loadIndexGranularityImpl example_collaborators empty_granularity info_fixed storage_fixed ''x'' =
     (\<lparr>marks_rows = [8192, 8192, 8192], initialized = True\<rparr>, info_fixed, None)"
proof -
  have 1: "info_fixed = changeGranularityIfRequired example_collaborators storage_fixed info_fixed"
    by (simp add: example_collaborators_def)
  have 2: "\<not> adaptive (mark_type info_fixed)" "\<not> compressed (mark_type info_fixed)"
    by (simp_all add: info_fixed_def)
  have p: "getMarksFilePath example_collaborators info_fixed ''x'' = ''x.mrk''"
    by (simp add: getMarksFilePath_def example_collaborators_def info_fixed_def)
  have 3: "exists_file storage_fixed (getMarksFilePath example_collaborators info_fixed ''x'')"
    unfolding p by (simp add: exists_file_def storage_fixed_def)
  have n: "unat (getFileSize storage_fixed ''x.mrk'' div getMarkSizeInBytes info_fixed) = 3"
    by (simp add: getFileSize_def storage_fixed_def getMarkSizeInBytes_def info_fixed_def)
  show ?thesis
    using fixed_marks_from_file_size [OF 1 2 3, of empty_granularity]
    unfolding p n
    by (simp add: empty_granularity_def info_fixed_def eval_nat_numeral)
qed

text \<open>
  C2.  When the mark format, after the adjustment of the granularity information to the
  storage, is adaptive or compressed and the mark file exists, the records are read one
  after the other until the end of the stream, which is the file or, if the format is
  compressed, what the decompressing reader gives for it.  For a stream that holds the
  mark records \<open>records\<close>, \<open>loadIndexGranularityImpl\<close> ends without an exception, the
  count of marks is the number of records, and the table is initialized and holds, if
  the format is adaptive, the row counts of the records in order after the entries
  that the table had before (none when a part is loaded), and otherwise the fixed
  granularity once per record.
\<close>

theorem streamed_marks_from_records:
  assumes "info = changeGranularityIfRequired co storage info0"
    and "adaptive (mark_type info) \<or> compressed (mark_type info)"
    and "storage_files storage (getMarksFilePath co info file_name) = Some marks_file"
    and "(if compressed (mark_type info) then decompress co marks_file else Inr marks_file) =
           Inr (mark_file_bytes (adaptive (mark_type info)) records)"
    and "length records < 2 ^ 64"
  shows "loadIndexGranularityImpl co g0 info0 storage file_name =
           (g0\<lparr>marks_rows :=
                  (if adaptive (mark_type info) then marks_rows g0 @ map granularity records
                   else replicate (length records) (fixed_index_granularity info)),
                initialized := True\<rparr>,
            info, None)
         \<and> fst (read_marks_loop (adaptive (mark_type info))
                  (mark_file_bytes (adaptive (mark_type info)) records) 0 g0) =
             of_nat (length records)"
proof -
  have n: "unat (of_nat (length records) :: UInt64) = length records"
    using assms(5) by (simp add: unat_of_nat)
  have r: "(if \<not> compressed (mark_type info) then Inr marks_file else decompress co marks_file) =
             Inr (mark_file_bytes (adaptive (mark_type info)) records)"
    using assms(4) by (simp split: if_splits)
  show ?thesis
    unfolding loadIndexGranularityImpl_def Let_def assms(1) [symmetric] assms(3) option.case r
    using assms(2) n
    by (auto simp: read_marks_loop_encoded setInitialized_def resizeWithFixedGranularity_def)
qed

text \<open>
  C2 at an adaptive mark file that holds the row counts 100, 250 and 17: the table is
  \<open>[100, 250, 17]\<close>.
\<close>

theorem streamed_marks_from_records_witness:
  "loadIndexGranularityImpl example_collaborators empty_granularity info_adaptive storage_adaptive ''x'' =
     (\<lparr>marks_rows = [100, 250, 17], initialized = True\<rparr>, info_adaptive, None)
   \<and> fst (read_marks_loop True (mark_file_bytes True records_adaptive) 0 empty_granularity) = 3"
proof -
  have 1: "info_adaptive = changeGranularityIfRequired example_collaborators storage_adaptive info_adaptive"
    by (simp add: example_collaborators_def)
  have a: "adaptive (mark_type info_adaptive)" "\<not> compressed (mark_type info_adaptive)"
    by (simp_all add: info_adaptive_def)
  then have 2: "adaptive (mark_type info_adaptive) \<or> compressed (mark_type info_adaptive)"
    by simp
  have p: "getMarksFilePath example_collaborators info_adaptive ''x'' = ''x.mrk2''"
    by (simp add: getMarksFilePath_def example_collaborators_def info_adaptive_def)
  have 3: "storage_files storage_adaptive (getMarksFilePath example_collaborators info_adaptive ''x'') =
      Some (mark_file_bytes True records_adaptive)"
    unfolding p by (simp add: storage_adaptive_def)
  have 4: "(if compressed (mark_type info_adaptive)
            then decompress example_collaborators (mark_file_bytes True records_adaptive)
            else Inr (mark_file_bytes True records_adaptive)) =
           Inr (mark_file_bytes (adaptive (mark_type info_adaptive)) records_adaptive)"
    using a by simp
  have 5: "length records_adaptive < 2 ^ 64"
    by (simp add: records_adaptive_def)
  have g: "map granularity records_adaptive = [100, 250, 17]" "length records_adaptive = 3"
    by (simp_all add: records_adaptive_def)
  show ?thesis
    using streamed_marks_from_records [OF 1 2 3 4 5, of empty_granularity] a
    by (simp add: g empty_granularity_def)
qed

text \<open>
  C8.  For a part with at least one column, when the mark file of the stream name
  resolved for the first column does not exist on the storage,
  \<open>loadIndexGranularity\<close> raises \<open>NO_FILE_IN_DATA_PART\<close> for that file, and the index
  granularity table of the part is left as it was: it is not set initialized.
\<close>

theorem missing_marks_file:
  assumes "columns part = front # rest"
    and "info = changeGranularityIfRequired co (data_part_storage part) (index_granularity_info part)"
    and "\<not> exists_file (data_part_storage part)
             (getMarksFilePath co info (getFileNameForColumn co part front))"
  shows "snd (loadIndexGranularity co part) =
           Some (Exception NO_FILE_IN_DATA_PART ''Marks file '{}' doesn't exist''
                   [PathJoin (getFullPath (data_part_storage part))
                      (getMarksFilePath co info (getFileNameForColumn co part front))])
         \<and> index_granularity (fst (loadIndexGranularity co part)) = index_granularity part"
  using assms
  by (simp add: loadIndexGranularity_def loadIndexGranularityImpl_def Let_def exists_file_def)

text \<open>
  C8 at the part with the numeric column \<open>x\<close> and no file on the storage: the error
  names the mark file \<open>x.mrk2\<close> of the part, and the table stays uninitialized.
\<close>

theorem missing_marks_file_witness:
  "snd (loadIndexGranularity example_collaborators part_numeric) =
     Some (Exception NO_FILE_IN_DATA_PART ''Marks file '{}' doesn't exist''
             [PathJoin ''/part'' ''x.mrk2''])
   \<and> initialized (index_granularity (fst (loadIndexGranularity example_collaborators part_numeric))) =
       False"
proof -
  have 1: "columns part_numeric = column_x # []"
    by (simp add: part_numeric_def)
  have 2: "info_adaptive =
      changeGranularityIfRequired example_collaborators (data_part_storage part_numeric)
        (index_granularity_info part_numeric)"
    by (simp add: example_collaborators_def part_numeric_def)
  have n: "getFileNameForColumn example_collaborators part_numeric column_x = ''x''"
    by (simp add: getFileNameForColumn_def enumerateStreams_def getSerialization_def
        part_numeric_def example_serializations_def column_x_def example_collaborators_def
        contains_file_def)
  have p: "getMarksFilePath example_collaborators info_adaptive ''x'' = ''x.mrk2''"
    by (simp add: getMarksFilePath_def example_collaborators_def info_adaptive_def)
  have 3: "\<not> exists_file (data_part_storage part_numeric)
      (getMarksFilePath example_collaborators info_adaptive
         (getFileNameForColumn example_collaborators part_numeric column_x))"
    unfolding n p by (simp add: exists_file_def part_numeric_def empty_storage_def)
  have path: "getFullPath (data_part_storage part_numeric) = ''/part''"
    by (simp add: part_numeric_def empty_storage_def)
  have g: "initialized (index_granularity part_numeric) = False"
    by (simp add: part_numeric_def empty_granularity_def)
  show ?thesis
    using missing_marks_file [OF 1 2 3]
    by (simp add: n p path g)
qed

end
